theory Spec2Isabelle
  imports Main "HOL-Library.Multiset"
begin

section \<open>Exceptions\<close>

text \<open>
  The exceptions the modelled code raises, catches or lets pass.
  \<open>HttpNotFoundError\<close> is a subclass of \<open>SlumberBaseException\<close>;
  \<open>ClientError\<close> carries its message and its status code.
\<close>

datatype py_exception =
    SlumberBaseException
  | HttpNotFoundError
  | ConnectionError
  | Timeout
  | NotConnectedToOpenEdX
  | ClientError string int
  | KeyError
  | ValueError
  | TypeError
  | AttributeError
  | OtherException string

text \<open>\<open>except (SlumberBaseException, ConnectionError, Timeout)\<close> in the API clients.\<close>

fun is_transport_error :: "py_exception \<Rightarrow> bool" where
  "is_transport_error SlumberBaseException = True"
| "is_transport_error HttpNotFoundError = True"
| "is_transport_error ConnectionError = True"
| "is_transport_error Timeout = True"
| "is_transport_error _ = False"

section \<open>Course modes: \<open>enterprise/api_client/lms.py\<close>\<close>

text \<open>
  A course mode is a dictionary of the enrollment API; only its \<open>slug\<close> is read.
  \<open>mode['slug']\<close> raises \<open>KeyError\<close> on a dictionary without that key.
\<close>

type_synonym course_mode = "(string \<times> string) list"

definition mode_slug :: "course_mode \<Rightarrow> py_exception + string" where
  "mode_slug mode = (case map_of mode ''slug'' of None \<Rightarrow> Inl KeyError | Some s \<Rightarrow> Inr s)"

text \<open>\<open>list.index\<close>: the position of the first occurrence, \<open>ValueError\<close> when there is none.\<close>

fun list_index :: "string list \<Rightarrow> string \<Rightarrow> py_exception + nat" where
  "list_index [] x = Inl ValueError"
| "list_index (y # ys) x =
     (if y = x then Inr 0
      else (case list_index ys x of Inl e \<Rightarrow> Inl e | Inr i \<Rightarrow> Inr (Suc i)))"

text \<open>
  \<open>slug_weight\<close>, the key function local to \<open>_sort_course_modes\<close>. The constant
  \<open>COURSE_MODE_SORT_ORDER\<close> of \<open>enterprise/constants.py\<close> is the parameter
  \<open>sorting_slugs\<close>.
\<close>

definition slug_weight :: "string list \<Rightarrow> course_mode \<Rightarrow> py_exception + int" where
  "slug_weight sorting_slugs mode =
     (let sorting_slugs_size = int (length sorting_slugs) in
      case mode_slug mode of
        Inl e \<Rightarrow> Inl e
      | Inr s \<Rightarrow>
          if s \<in> set sorting_slugs then
            (case list_index sorting_slugs s of
               Inl e \<Rightarrow> Inl e
             | Inr i \<Rightarrow> Inr (sorting_slugs_size - int i))
          else Inr 0)"

text \<open>
  \<open>sorted(xs, key=key, reverse=True)\<close>: the key of every element is computed first, in
  order, and the first exception propagates; the sort is stable, and with
  \<open>reverse=True\<close> elements of equal key keep their order too (the list is reversed,
  sorted stably in ascending order, and reversed again).
\<close>

fun with_keys :: "('a \<Rightarrow> py_exception + int) \<Rightarrow> 'a list \<Rightarrow> py_exception + (int \<times> 'a) list" where
  "with_keys key [] = Inr []"
| "with_keys key (x # xs) =
     (case key x of
        Inl e \<Rightarrow> Inl e
      | Inr k \<Rightarrow> (case with_keys key xs of Inl e \<Rightarrow> Inl e | Inr kxs \<Rightarrow> Inr ((k, x) # kxs)))"

definition sorted_reverse :: "('a \<Rightarrow> py_exception + int) \<Rightarrow> 'a list \<Rightarrow> py_exception + 'a list" where
  "sorted_reverse key xs =
     (case with_keys key xs of
        Inl e \<Rightarrow> Inl e
      | Inr kxs \<Rightarrow> Inr (map snd (rev (sort_key fst (rev kxs)))))"

definition sort_course_modes :: "string list \<Rightarrow> course_mode list \<Rightarrow> py_exception + course_mode list" where
  "sort_course_modes sorting_slugs modes = sorted_reverse (slug_weight sorting_slugs) modes"

text \<open>
  The comprehension \<open>[mode for mode in modes if mode['slug'] not in EXCLUDED_COURSE_MODES]\<close>;
  the constant is the parameter \<open>excluded\<close>.
\<close>

fun not_excluded_modes :: "string list \<Rightarrow> course_mode list \<Rightarrow> py_exception + course_mode list" where
  "not_excluded_modes excluded [] = Inr []"
| "not_excluded_modes excluded (mode # modes) =
     (case mode_slug mode of
        Inl e \<Rightarrow> Inl e
      | Inr s \<Rightarrow>
          (case not_excluded_modes excluded modes of
             Inl e \<Rightarrow> Inl e
           | Inr kept \<Rightarrow> Inr (if s \<notin> set excluded then mode # kept else kept)))"

text \<open>The last line of \<open>get_course_modes\<close>, applied to the modes of the course details.\<close>

definition select_course_modes ::
  "string list \<Rightarrow> string list \<Rightarrow> course_mode list \<Rightarrow> py_exception + course_mode list" where
  "select_course_modes sorting_slugs excluded modes =
     (case not_excluded_modes excluded modes of
        Inl e \<Rightarrow> Inl e
      | Inr kept \<Rightarrow> sort_course_modes sorting_slugs kept)"

text \<open>Notions the statements about course modes use.\<close>

definition has_slug :: "course_mode \<Rightarrow> bool" where
  "has_slug mode = (map_of mode ''slug'' \<noteq> None)"

definition is_excluded :: "string list \<Rightarrow> course_mode \<Rightarrow> bool" where
  "is_excluded excluded mode =
     (case map_of mode ''slug'' of None \<Rightarrow> False | Some s \<Rightarrow> s \<in> set excluded)"

definition in_sort_order :: "string list \<Rightarrow> course_mode \<Rightarrow> bool" where
  "in_sort_order sorting_slugs mode =
     (case map_of mode ''slug'' of None \<Rightarrow> False | Some s \<Rightarrow> s \<in> set sorting_slugs)"

definition sort_position :: "string list \<Rightarrow> course_mode \<Rightarrow> nat" where
  "sort_position sorting_slugs mode =
     (case map_of mode ''slug'' of
        None \<Rightarrow> length sorting_slugs
      | Some s \<Rightarrow> length (takeWhile (\<lambda>y. y \<noteq> s) sorting_slugs))"

text \<open>An API response that carries course modes, used where a concrete list is needed.\<close>

definition example_modes :: "course_mode list" where
  "example_modes =
     [[(''slug'', ''audit''), (''name'', ''Audit'')],
      [(''slug'', ''credit'')],
      [(''name'', ''Honor''), (''slug'', ''honor'')],
      [(''slug'', ''verified'')],
      [(''slug'', ''audit''), (''name'', ''Audit again'')],
      [(''slug'', ''no-id-professional'')]]"

section \<open>The JWT client: \<open>JwtLmsApiClient\<close>\<close>

text \<open>
  The object state of \<open>JwtLmsApiClient\<close>. \<open>client\<close> is \<open>None\<close> until \<open>connect\<close>
  builds an \<open>EdxRestApiClient\<close> around a JWT; the model keeps the JWT it was built with.
\<close>

record jwt_client =
  user :: string
  expires_in :: int
  expires_at :: int
  client :: "string option"

definition new_jwt_client :: "string \<Rightarrow> int \<Rightarrow> jwt_client" where
  "new_jwt_client u lifetime = \<lparr>user = u, expires_in = lifetime, expires_at = 0, client = None\<rparr>"

text \<open>
  A value of a course-details dictionary: the list of course modes under
  \<open>'course_modes'\<close>, text elsewhere.
\<close>

datatype detail = Text string | Modes "course_mode list"

type_synonym course_details = "(string \<times> detail) list"

text \<open>
  What the code calls and does not define: the clock (\<open>int(time())\<close>), the JWT builder of
  the host platform (\<open>None\<close> when the import failed), and the HTTP endpoints. Every call
  takes the state of the outside world and returns the new one; an endpoint returns its
  response or raises.
\<close>

record 'w platform =
  env_time :: "'w \<Rightarrow> int \<times> 'w"
  env_jwt_builder :: "(string \<Rightarrow> string) option"
  env_enrollment_course_get :: "string \<Rightarrow> string \<Rightarrow> 'w \<Rightarrow> (py_exception + course_details) \<times> 'w"
  env_courses_get :: "string \<Rightarrow> 'w \<Rightarrow> (py_exception + course_details) \<times> 'w"
  env_refresh_metadata_post ::
    "string \<Rightarrow> string \<Rightarrow> 'w \<Rightarrow> (py_exception + (string \<times> string) list) \<times> 'w"

text \<open>The result of a method: its return value or exception, the object and the world.\<close>

type_synonym ('a, 'w) method_result = "(py_exception + 'a) \<times> jwt_client \<times> 'w"

definition connect :: "'w platform \<Rightarrow> jwt_client \<Rightarrow> 'w \<Rightarrow> (unit, 'w) method_result" where
  "connect P self w =
     (case env_jwt_builder P of
        None \<Rightarrow> (Inl NotConnectedToOpenEdX, self, w)
      | Some create_jwt_for_user \<Rightarrow>
          (case env_time P w of
             (now, w') \<Rightarrow>
               (let jwt = create_jwt_for_user (user self) in
                (Inr (), self\<lparr>client := Some jwt, expires_at := now + expires_in self\<rparr>, w'))))"

definition token_expired :: "'w platform \<Rightarrow> jwt_client \<Rightarrow> 'w \<Rightarrow> bool \<times> 'w" where
  "token_expired P self w = (case env_time P w of (t, w') \<Rightarrow> (t > expires_at self, w'))"

text \<open>The decorator \<open>refresh_token\<close>: \<open>inner\<close> applied to the wrapped method \<open>func\<close>.\<close>

definition refresh_token ::
  "'w platform \<Rightarrow> (jwt_client \<Rightarrow> 'w \<Rightarrow> ('a, 'w) method_result) \<Rightarrow> jwt_client \<Rightarrow> 'w
     \<Rightarrow> ('a, 'w) method_result" where
  "refresh_token P func self w =
     (case token_expired P self w of
        (True, w1) \<Rightarrow>
          (case connect P self w1 of
             (Inl e, self', w2) \<Rightarrow> (Inl e, self', w2)
           | (Inr _, self', w2) \<Rightarrow> func self' w2)
      | (False, w1) \<Rightarrow> func self w1)"

section \<open>\<open>EnrollmentApiClient\<close> and \<open>CourseApiClient\<close>\<close>

text \<open>
  The body of \<open>EnrollmentApiClient.get_course_details\<close>. An attribute of
  \<open>self.client\<close> is read inside the \<open>try\<close>; on a client that never connected this is
  an \<open>AttributeError\<close>, which the \<open>except\<close> clause does not name.
\<close>

definition get_course_details_body ::
  "'w platform \<Rightarrow> string \<Rightarrow> jwt_client \<Rightarrow> 'w \<Rightarrow> (course_details, 'w) method_result" where
  "get_course_details_body P course_id self w =
     (case client self of
        None \<Rightarrow> (Inl AttributeError, self, w)
      | Some jwt \<Rightarrow>
          (case env_enrollment_course_get P jwt course_id w of
             (Inr details, w') \<Rightarrow> (Inr details, self, w')
           | (Inl exc, w') \<Rightarrow>
               if is_transport_error exc then (Inr [], self, w') else (Inl exc, self, w')))"

definition get_course_details ::
  "'w platform \<Rightarrow> string \<Rightarrow> jwt_client \<Rightarrow> 'w \<Rightarrow> (course_details, 'w) method_result" where
  "get_course_details P course_id = refresh_token P (get_course_details_body P course_id)"

text \<open>
  \<open>details.get('course_modes', [])\<close>, read as the list the comprehension iterates over.
  A text value is iterated character by character, and \<open>mode['slug']\<close> on a character
  is a \<open>TypeError\<close>.
\<close>

definition course_modes_of :: "course_details \<Rightarrow> py_exception + course_mode list" where
  "course_modes_of details =
     (case map_of details ''course_modes'' of
        None \<Rightarrow> Inr []
      | Some (Modes modes) \<Rightarrow> Inr modes
      | Some (Text t) \<Rightarrow> if t = [] then Inr [] else Inl TypeError)"

definition get_course_modes_body ::
  "'w platform \<Rightarrow> string list \<Rightarrow> string list \<Rightarrow> string \<Rightarrow> jwt_client \<Rightarrow> 'w
     \<Rightarrow> (course_mode list, 'w) method_result" where
  "get_course_modes_body P sorting_slugs excluded course_id self w =
     (case get_course_details P course_id self w of
        (Inl e, self', w') \<Rightarrow> (Inl e, self', w')
      | (Inr details, self', w') \<Rightarrow>
          (case course_modes_of details of
             Inl e \<Rightarrow> (Inl e, self', w')
           | Inr modes \<Rightarrow> (select_course_modes sorting_slugs excluded modes, self', w')))"

definition get_course_modes ::
  "'w platform \<Rightarrow> string list \<Rightarrow> string list \<Rightarrow> string \<Rightarrow> jwt_client \<Rightarrow> 'w
     \<Rightarrow> (course_mode list, 'w) method_result" where
  "get_course_modes P sorting_slugs excluded course_id =
     refresh_token P (get_course_modes_body P sorting_slugs excluded course_id)"


section \<open>\<open>EnterpriseCatalogApiClient.refresh_catalogs\<close>\<close>





section \<open>The learner data transmitter: \<open>LearnerTransmitter\<close>\<close>

text \<open>\<open>str(code)\<close>: the decimal string of an integer.\<close>

definition digit_char :: "nat \<Rightarrow> char" where
  "digit_char d = ''0123456789'' ! d"

fun str_nat :: "nat \<Rightarrow> string" where
  "str_nat n = (if n < 10 then [digit_char n] else str_nat (n div 10) @ [digit_char (n mod 10)])"

declare str_nat.simps [simp del]

definition str :: "int \<Rightarrow> string" where
  "str i = (if i < 0 then CHR ''-'' # str_nat (nat (- i)) else str_nat (nat i))"

text \<open>
  An exported learner data record: an unsaved row of the channel's transmission audit
  model. \<open>grade\<close> is \<open>None\<close> where the attribute is missing or \<open>None\<close>;
  \<open>attributes\<close> holds the channel's own fields, the remote user id among them.
\<close>

record learner_data =
  enterprise_course_enrollment_id :: int
  course_id :: string
  course_completed :: bool
  grade :: "string option"
  subsection_id :: "string option"
  attributes :: "(string \<times> string) list"
  status :: string
  error_message :: string

text \<open>
  What a run does to the outside, in the order it does it: each record's serialisation,
  each call of the channel's client (remote user id, payload), each \<open>save()\<close>. Every
  entry is tagged with the position of its record in the export. The log is kept apart.
\<close>

datatype effect = Serialize learner_data | Post string string | Save learner_data

datatype log_entry = Info string int | Exception_logged string int

record 'w channel_state =
  audit :: "learner_data list"
  partner :: 'w
  trace :: "(nat \<times> effect) list"
  logs :: "log_entry list"

text \<open>
  What the transmitter is given: the channel's client methods, which return
  \<open>(code, body)\<close> or raise, the record's \<open>serialize\<close>, the keyword argument
  \<open>remote_user_id\<close>, and \<open>is_already_transmitted\<close> of \<open>integrated_channels/utils.py\<close>,
  a query on the rows of the audit model (enrollment id, grade, subsection id).
\<close>

record 'w channel =
  create_course_completion :: "string \<Rightarrow> string \<Rightarrow> 'w \<Rightarrow> (py_exception + int \<times> string) \<times> 'w"
  create_assessment_reporting :: "string \<Rightarrow> string \<Rightarrow> 'w \<Rightarrow> (py_exception + int \<times> string) \<times> 'w"
  serialize :: "learner_data \<Rightarrow> string"
  remote_user_id :: "string option"
  is_already_transmitted :: "learner_data list \<Rightarrow> int \<Rightarrow> string option \<Rightarrow> string option \<Rightarrow> bool"

text \<open>
  \<open>getattr(learner_data, kwargs.get('remote_user_id'))\<close>: a \<open>TypeError\<close> when the
  keyword argument is absent, an \<open>AttributeError\<close> when the record has no such field.
\<close>

definition getattr :: "learner_data \<Rightarrow> string option \<Rightarrow> py_exception + string" where
  "getattr learner_data name =
     (case name of
        None \<Rightarrow> Inl TypeError
      | Some n \<Rightarrow>
          (case map_of (attributes learner_data) n of
             None \<Rightarrow> Inl AttributeError
           | Some v \<Rightarrow> Inr v))"

text \<open>\<open>learner_data.save()\<close>: the row is added to the audit model.\<close>

definition save :: "nat \<Rightarrow> learner_data \<Rightarrow> 'w channel_state \<Rightarrow> 'w channel_state" where
  "save i learner_data s =
     s\<lparr>audit := audit s @ [learner_data], trace := trace s @ [(i, Save learner_data)]\<rparr>"

text \<open>
  The last three statements of each loop body: \<open>status\<close>, \<open>error_message\<close>,
  \<open>save()\<close>.
\<close>

definition record_result ::
  "nat \<Rightarrow> learner_data \<Rightarrow> int \<Rightarrow> string \<Rightarrow> 'w channel_state \<Rightarrow> learner_data \<times> 'w channel_state" where
  "record_result i learner_data code body s =
     (let learner_data' =
            learner_data\<lparr>status := str code,
                         error_message := (if code \<ge> 400 then body else [])\<rparr>
      in (learner_data', save i learner_data' s))"

text \<open>
  The \<open>try\<close> statement of \<open>transmit\<close>. The result is \<open>(code, body)\<close> as the
  statements after it find them, or the exception that is raised again.
\<close>

definition try_create_course_completion ::
  "'w channel \<Rightarrow> nat \<Rightarrow> learner_data \<Rightarrow> string \<Rightarrow> 'w channel_state
     \<Rightarrow> (py_exception + int \<times> string) \<times> 'w channel_state" where
  "try_create_course_completion P i learner_data serialized_payload s =
     (let enterprise_enrollment_id = enterprise_course_enrollment_id learner_data in
      case getattr learner_data (remote_user_id P) of
        Inl exc \<Rightarrow>
          (Inl exc,
           s\<lparr>logs := logs s @
              [Exception_logged ''create_assessment_reporting failed with Exception''
                 enterprise_enrollment_id]\<rparr>)
      | Inr remote_user \<Rightarrow>
          (case create_course_completion P remote_user serialized_payload (partner s) of
             (outcome, w') \<Rightarrow>
               (let s' = s\<lparr>partner := w',
                            trace := trace s @ [(i, Post remote_user serialized_payload)]\<rparr>
                in case outcome of
                     Inr (code, body) \<Rightarrow>
                       if code \<ge> 400 then
                         (Inr (code, ''Client create_course_completion failed: '' @ body),
                          s'\<lparr>logs := logs s' @
                             [Exception_logged ''Failed to send completion status call''
                                enterprise_enrollment_id]\<rparr>)
                       else
                         (Inr (code, body),
                          s'\<lparr>logs := logs s' @
                             [Info ''Successfully sent completion status call''
                                enterprise_enrollment_id]\<rparr>)
                   | Inl (ClientError message status_code) \<Rightarrow>
                       (Inr (status_code, message),
                        s'\<lparr>logs := logs s' @
                           [Exception_logged ''Failed to send completion status call''
                              enterprise_enrollment_id]\<rparr>)
                   | Inl exc \<Rightarrow>
                       (Inl exc,
                        s'\<lparr>logs := logs s' @
                           [Exception_logged ''create_assessment_reporting failed with Exception''
                              enterprise_enrollment_id]\<rparr>))))"

text \<open>
  One pass of the loop body of \<open>transmit\<close>, on the record at position \<open>i\<close> of the
  export. The result is the exception that leaves the loop, if any, the record as the
  body left it, and the state.
\<close>

definition transmit_record ::
  "'w channel \<Rightarrow> nat \<Rightarrow> learner_data \<Rightarrow> 'w channel_state
     \<Rightarrow> py_exception option \<times> learner_data \<times> 'w channel_state" where
  "transmit_record P i learner_data s =
     (let serialized_payload = serialize P learner_data;
          s1 = s\<lparr>trace := trace s @ [(i, Serialize learner_data)]\<rparr>;
          enterprise_enrollment_id = enterprise_course_enrollment_id learner_data
      in
      if \<not> course_completed learner_data then
        (None, learner_data,
         s1\<lparr>logs := logs s1 @
            [Info ''Skipping in-progress enterprise enrollment'' enterprise_enrollment_id]\<rparr>)
      else if is_already_transmitted P (audit s1) enterprise_enrollment_id
                (grade learner_data) None then
        (None, learner_data,
         s1\<lparr>logs := logs s1 @
            [Info ''Skipping previously sent enterprise enrollment'' enterprise_enrollment_id]\<rparr>)
      else
        (case try_create_course_completion P i learner_data serialized_payload s1 of
           (Inl exc, s2) \<Rightarrow> (Some exc, learner_data, s2)
         | (Inr (code, body), s2) \<Rightarrow>
             (case record_result i learner_data code body s2 of
                (learner_data', s3) \<Rightarrow> (None, learner_data', s3))))"

text \<open>The \<open>for\<close> loop of \<open>transmit\<close> over the exported records, from position \<open>i\<close>.\<close>

fun transmit_from ::
  "'w channel \<Rightarrow> nat \<Rightarrow> learner_data list \<Rightarrow> 'w channel_state
     \<Rightarrow> py_exception option \<times> 'w channel_state" where
  "transmit_from P i [] s = (None, s)"
| "transmit_from P i (learner_data # rest) s =
     (case transmit_record P i learner_data s of
        (Some exc, _, s') \<Rightarrow> (Some exc, s')
      | (None, _, s') \<Rightarrow> transmit_from P (Suc i) rest s')"

definition transmit ::
  "'w channel \<Rightarrow> learner_data list \<Rightarrow> 'w channel_state \<Rightarrow> py_exception option \<times> 'w channel_state" where
  "transmit P exported s = transmit_from P 0 exported s"

text \<open>
  The \<open>try\<close> statement of \<open>assessment_level_transmit\<close>; a response is taken as it
  comes, whatever its code. \<open>single_learner_assessment_grade_transmit\<close> has the same
  statement without the message logged on success.
\<close>

definition try_create_assessment_reporting ::
  "'w channel \<Rightarrow> bool \<Rightarrow> nat \<Rightarrow> learner_data \<Rightarrow> string \<Rightarrow> 'w channel_state
     \<Rightarrow> (py_exception + int \<times> string) \<times> 'w channel_state" where
  "try_create_assessment_reporting P log_success i learner_data serialized_payload s =
     (let enterprise_enrollment_id = enterprise_course_enrollment_id learner_data in
      case getattr learner_data (remote_user_id P) of
        Inl exc \<Rightarrow>
          (Inl exc,
           s\<lparr>logs := logs s @
              [Exception_logged ''create_assessment_reporting failed with Exception''
                 enterprise_enrollment_id]\<rparr>)
      | Inr remote_user \<Rightarrow>
          (case create_assessment_reporting P remote_user serialized_payload (partner s) of
             (outcome, w') \<Rightarrow>
               (let s' = s\<lparr>partner := w',
                            trace := trace s @ [(i, Post remote_user serialized_payload)]\<rparr>
                in case outcome of
                     Inr (code, body) \<Rightarrow>
                       (Inr (code, body),
                        if log_success then
                          s'\<lparr>logs := logs s' @
                             [Info ''create_assessment_reporting successfully completed''
                                enterprise_enrollment_id]\<rparr>
                        else s')
                   | Inl (ClientError message status_code) \<Rightarrow>
                       (Inr (status_code, message),
                        s'\<lparr>logs := logs s' @
                           [Exception_logged ''Failed to send completion status call''
                              enterprise_enrollment_id]\<rparr>)
                   | Inl exc \<Rightarrow>
                       (Inl exc,
                        s'\<lparr>logs := logs s' @
                           [Exception_logged ''create_assessment_reporting failed with Exception''
                              enterprise_enrollment_id]\<rparr>))))"

text \<open>One pass of the loop body of \<open>assessment_level_transmit\<close>.\<close>

definition assessment_level_record ::
  "'w channel \<Rightarrow> nat \<Rightarrow> learner_data \<Rightarrow> 'w channel_state
     \<Rightarrow> py_exception option \<times> learner_data \<times> 'w channel_state" where
  "assessment_level_record P i learner_data s =
     (let serialized_payload = serialize P learner_data;
          s1 = s\<lparr>trace := trace s @ [(i, Serialize learner_data)]\<rparr>;
          enterprise_enrollment_id = enterprise_course_enrollment_id learner_data
      in
      if is_already_transmitted P (audit s1) enterprise_enrollment_id
           (grade learner_data) (subsection_id learner_data) then
        (None, learner_data,
         s1\<lparr>logs := logs s1 @
            [Info ''Skipping previously sent EnterpriseCourseEnrollment'' enterprise_enrollment_id]\<rparr>)
      else
        (case try_create_assessment_reporting P True i learner_data serialized_payload s1 of
           (Inl exc, s2) \<Rightarrow> (Some exc, learner_data, s2)
         | (Inr (code, body), s2) \<Rightarrow>
             (case record_result i learner_data code body s2 of
                (learner_data', s3) \<Rightarrow> (None, learner_data', s3))))"

fun assessment_level_transmit_from ::
  "'w channel \<Rightarrow> nat \<Rightarrow> learner_data list \<Rightarrow> 'w channel_state
     \<Rightarrow> py_exception option \<times> 'w channel_state" where
  "assessment_level_transmit_from P i [] s = (None, s)"
| "assessment_level_transmit_from P i (learner_data # rest) s =
     (case assessment_level_record P i learner_data s of
        (Some exc, _, s') \<Rightarrow> (Some exc, s')
      | (None, _, s') \<Rightarrow> assessment_level_transmit_from P (Suc i) rest s')"

definition assessment_level_transmit ::
  "'w channel \<Rightarrow> learner_data list \<Rightarrow> 'w channel_state \<Rightarrow> py_exception option \<times> 'w channel_state" where
  "assessment_level_transmit P exported s = assessment_level_transmit_from P 0 exported s"

text \<open>
  One pass of the loop body of \<open>single_learner_assessment_grade_transmit\<close>: the record
  is serialised and sent; the audit model is not asked.
\<close>

definition single_learner_assessment_grade_record ::
  "'w channel \<Rightarrow> nat \<Rightarrow> learner_data \<Rightarrow> 'w channel_state
     \<Rightarrow> py_exception option \<times> learner_data \<times> 'w channel_state" where
  "single_learner_assessment_grade_record P i learner_data s =
     (let s0 = s\<lparr>logs := logs s @
                  [Info ''create_assessment_reporting started''
                     (enterprise_course_enrollment_id learner_data)]\<rparr>;
          serialized_payload = serialize P learner_data;
          s1 = s0\<lparr>trace := trace s0 @ [(i, Serialize learner_data)]\<rparr>
      in
      case try_create_assessment_reporting P False i learner_data serialized_payload s1 of
        (Inl exc, s2) \<Rightarrow> (Some exc, learner_data, s2)
      | (Inr (code, body), s2) \<Rightarrow>
          (case record_result i learner_data code body s2 of
             (learner_data', s3) \<Rightarrow> (None, learner_data', s3)))"

fun single_learner_assessment_grade_transmit_from ::
  "'w channel \<Rightarrow> nat \<Rightarrow> learner_data list \<Rightarrow> 'w channel_state
     \<Rightarrow> py_exception option \<times> 'w channel_state" where
  "single_learner_assessment_grade_transmit_from P i [] s = (None, s)"
| "single_learner_assessment_grade_transmit_from P i (learner_data # rest) s =
     (case single_learner_assessment_grade_record P i learner_data s of
        (Some exc, _, s') \<Rightarrow> (Some exc, s')
      | (None, _, s') \<Rightarrow> single_learner_assessment_grade_transmit_from P (Suc i) rest s')"

definition single_learner_assessment_grade_transmit ::
  "'w channel \<Rightarrow> learner_data list \<Rightarrow> 'w channel_state \<Rightarrow> py_exception option \<times> 'w channel_state" where
  "single_learner_assessment_grade_transmit P exported s =
     single_learner_assessment_grade_transmit_from P 0 exported s"

text \<open>Readings of a trace that the statements use.\<close>

fun phase :: "effect \<Rightarrow> nat" where
  "phase (Serialize _) = 0"
| "phase (Post _ _) = 1"
| "phase (Save _) = 2"

definition effect_before :: "nat \<times> effect \<Rightarrow> nat \<times> effect \<Rightarrow> bool" where
  "effect_before a b = (fst a < fst b \<or> (fst a = fst b \<and> phase (snd a) < phase (snd b)))"



fun serialized :: "(nat \<times> effect) list \<Rightarrow> learner_data list" where
  "serialized [] = []"
| "serialized ((_, Serialize learner_data) # tr) = learner_data # serialized tr"
| "serialized (_ # tr) = serialized tr"

text \<open>
  Modelled from the spec: \<open>is_already_transmitted\<close> of \<open>integrated_channels/utils.py\<close>,
  which is not among the sources. The spec has the audit rows store the last-sent
  grade, status and error of an enrollment, as an idempotence marker, and names the
  design "deduplicate by comparing the last-sent grade"; the comment above the loop of
  \<open>transmit\<close> adds that after a failed transmission the next record of the same
  enrollment is attempted, not skipped. So a record counts as sent when the latest row
  of its enrollment that was recorded without an error (and, for an assessment, of its
  subsection) carries the same grade. The rows are in the order they were saved.
\<close>

definition is_already_transmitted_model ::
  "learner_data list \<Rightarrow> int \<Rightarrow> string option \<Rightarrow> string option \<Rightarrow> bool" where
  "is_already_transmitted_model rows enterprise_enrollment_id g sub =
     (case filter
             (\<lambda>row. enterprise_course_enrollment_id row = enterprise_enrollment_id
                  \<and> error_message row = []
                  \<and> (case sub of None \<Rightarrow> True | Some sid \<Rightarrow> subsection_id row = Some sid))
             rows of
        [] \<Rightarrow> False
      | r # rs \<Rightarrow> grade (last (r # rs)) = g)"

text \<open>
  Concrete partners, channels, records and states for the examples. The partner's
  state counts the calls it has received.
\<close>

definition accepting_partner :: "string \<Rightarrow> string \<Rightarrow> nat \<Rightarrow> (py_exception + int \<times> string) \<times> nat" where
  "accepting_partner remote_user payload n = (Inr (200, ''{}''), Suc n)"

definition rejecting_partner :: "string \<Rightarrow> string \<Rightarrow> nat \<Rightarrow> (py_exception + int \<times> string) \<times> nat" where
  "rejecting_partner remote_user payload n = (Inr (500, ''oops''), Suc n)"

definition client_error_partner :: "string \<Rightarrow> string \<Rightarrow> nat \<Rightarrow> (py_exception + int \<times> string) \<times> nat" where
  "client_error_partner remote_user payload n = (Inl (ClientError ''denied'' 403), Suc n)"

definition timeout_partner :: "string \<Rightarrow> string \<Rightarrow> nat \<Rightarrow> (py_exception + int \<times> string) \<times> nat" where
  "timeout_partner remote_user payload n = (Inl Timeout, Suc n)"

definition example_channel ::
  "(string \<Rightarrow> string \<Rightarrow> nat \<Rightarrow> (py_exception + int \<times> string) \<times> nat) \<Rightarrow> nat channel" where
  "example_channel api =
     \<lparr>create_course_completion = api,
      create_assessment_reporting = api,
      serialize = course_id,
      remote_user_id = Some ''user_id'',
      is_already_transmitted = is_already_transmitted_model\<rparr>"

definition example_record :: "int \<Rightarrow> string \<Rightarrow> bool \<Rightarrow> string \<Rightarrow> learner_data" where
  "example_record enrollment course completed g =
     \<lparr>enterprise_course_enrollment_id = enrollment,
      course_id = course,
      course_completed = completed,
      grade = Some g,
      subsection_id = None,
      attributes = [(''user_id'', ''learner-1'')],
      status = [],
      error_message = []\<rparr>"

definition initial_state :: "nat channel_state" where
  "initial_state = \<lparr>audit = [], partner = 0, trace = [], logs = []\<rparr>"

text \<open>
  The record as a transmission with status \<open>code\<close> and message \<open>message\<close> leaves it:
  the decimal string of the code as \<open>status\<close>, the message as \<open>error_message\<close> when
  the code is 400 or more, the empty string otherwise.
\<close>

definition recorded_as :: "learner_data \<Rightarrow> int \<Rightarrow> string \<Rightarrow> learner_data" where
  "recorded_as learner_data code message =
     learner_data\<lparr>status := str code,
                  error_message := (if 400 \<le> code then message else [])\<rparr>"

text \<open>The state after enrollment 7 was transmitted with grade \<open>Pass\<close> and accepted.\<close>

definition state_with_sent_record :: "nat channel_state" where
  "state_with_sent_record =
     \<lparr>audit = [recorded_as (example_record 7 ''course-v1:A+B+C'' True ''Pass'') 200 ''{}''],
      partner = Suc 0,
      trace = [],
      logs = []\<rparr>"

text \<open>
  An effect belongs to a record: the record itself is serialised, its payload is posted
  for its remote user id, and what is saved is the record with a status and an error
  message.
\<close>

fun effect_of_record :: "'w channel \<Rightarrow> learner_data \<Rightarrow> effect \<Rightarrow> bool" where
  "effect_of_record P learner_data (Serialize ld') = (ld' = learner_data)"
| "effect_of_record P learner_data (Post remote_user payload) =
     (payload = serialize P learner_data
      \<and> getattr learner_data (remote_user_id P) = Inr remote_user)"
| "effect_of_record P learner_data (Save ld') =
     (ld' = learner_data\<lparr>status := status ld', error_message := error_message ld'\<rparr>)"

text \<open>
  A concrete platform for the examples. The world is the number of interactions so far;
  the clock reads \<open>epoch\<close> plus that number. The endpoints answer as the given
  functions of the argument and the world say.
\<close>

definition example_platform ::
  "int \<Rightarrow> (string \<Rightarrow> string) option
     \<Rightarrow> (string \<Rightarrow> nat \<Rightarrow> py_exception + course_details)
     \<Rightarrow> (string \<Rightarrow> nat \<Rightarrow> py_exception + (string \<times> string) list)
     \<Rightarrow> nat platform" where
  "example_platform epoch builder course_get refresh_post =
     \<lparr>env_time = (\<lambda>w. (epoch + int w, Suc w)),
      env_jwt_builder = builder,
      env_enrollment_course_get = (\<lambda>jwt c w. (course_get c w, Suc w)),
      env_courses_get = (\<lambda>c w. (course_get c w, Suc w)),
      env_refresh_metadata_post = (\<lambda>jwt u w. (refresh_post u w, Suc w))\<rparr>"

definition example_jwt_builder :: "string \<Rightarrow> string" where
  "example_jwt_builder u = ''jwt-for-'' @ u"


definition course_get_answers :: "string \<Rightarrow> nat \<Rightarrow> py_exception + course_details" where
  "course_get_answers c w = Inr [(''course_id'', Text c), (''course_modes'', Modes example_modes)]"

definition refresh_post_alternating :: "string \<Rightarrow> nat \<Rightarrow> py_exception + (string \<times> string) list" where
  "refresh_post_alternating u w =
     (if even w then Inr [(''async_task_id'', ''task-'' @ u)] else Inl Timeout)"


text \<open>
  The rows that the \<open>save()\<close> calls of a trace store, and the partner's state after the
  calls of \<open>create_course_completion\<close> of a trace, both in the order of the trace.
\<close>

fun saved :: "(nat \<times> effect) list \<Rightarrow> learner_data list" where
  "saved [] = []"
| "saved ((_, Save learner_data) # tr) = learner_data # saved tr"
| "saved (_ # tr) = saved tr"

fun completion_calls :: "'w channel \<Rightarrow> (nat \<times> effect) list \<Rightarrow> 'w \<Rightarrow> 'w" where
  "completion_calls P [] w = w"
| "completion_calls P ((_, Post remote_user payload) # tr) w =
     completion_calls P tr (snd (create_course_completion P remote_user payload w))"
| "completion_calls P (_ # tr) w = completion_calls P tr w"



section \<open>Properties of the course-mode selection\<close>


lemma list_index_member:
  "s \<in> set xs \<Longrightarrow> list_index xs s = Inr (length (takeWhile (\<lambda>y. y \<noteq> s) xs))"
  by (induction xs) auto

lemma takeWhile_pos_less:
  "s \<in> set xs \<Longrightarrow> length (takeWhile (\<lambda>y. y \<noteq> s) xs) < length xs"
  by (induction xs) auto

lemma slug_weight_total:
  assumes "has_slug m"
  shows "slug_weight order m =
     Inr (if in_sort_order order m then int (length order) - int (sort_position order m) else 0)"
  using assms
  by (auto simp: slug_weight_def mode_slug_def has_slug_def in_sort_order_def sort_position_def
      list_index_member split: option.splits)

lemma not_excluded_modes_filter:
  "\<forall>m \<in> set modes. has_slug m \<Longrightarrow>
   not_excluded_modes excluded modes = Inr (filter (\<lambda>m. \<not> is_excluded excluded m) modes)"
  by (induction modes) (auto simp: mode_slug_def has_slug_def is_excluded_def split: option.splits)

lemma with_keys_total:
  "\<forall>x \<in> set xs. key x = Inr (w x) \<Longrightarrow> with_keys key xs = Inr (map (\<lambda>x. (w x, x)) xs)"
  by (induction xs) auto

lemma sorted_reverse_total:
  assumes "\<forall>x \<in> set xs. key x = Inr (w x)"
  shows "\<exists>res. sorted_reverse key xs = Inr res \<and> mset res = mset xs
     \<and> sorted_wrt (\<lambda>a b. w a \<ge> w b) res
     \<and> (\<forall>k. filter (\<lambda>x. w x = k) res = filter (\<lambda>x. w x = k) xs)"
proof -
  let ?d = "\<lambda>x. (w x, x)"
  let ?ps = "rev (sort_key fst (rev (map ?d xs)))"
  have eq: "sorted_reverse key xs = Inr (map snd ?ps)"
    by (simp add: sorted_reverse_def with_keys_total[OF assms])
  have dec: "\<forall>p \<in> set ?ps. fst p = w (snd p)" by auto
  have m: "mset (map snd ?ps) = mset xs"
    by (simp add: multiset.map_comp comp_def)
  have "sorted (map fst (sort_key fst (rev (map ?d xs))))" by (rule sorted_sort_key)
  then have "sorted_wrt (\<lambda>a b. fst a \<le> fst b) (sort_key fst (rev (map ?d xs)))"
    by (simp add: sorted_map)
  then have "sorted_wrt (\<lambda>a b. fst a \<ge> fst b) ?ps"
    by (simp add: sorted_wrt_rev)
  then have "sorted_wrt (\<lambda>a b. w (snd a) \<ge> w (snd b)) ?ps"
    using dec by (auto elim!: sorted_wrt_mono_rel[rotated])
  then have s: "sorted_wrt (\<lambda>a b. w a \<ge> w b) (map snd ?ps)"
    by (simp add: sorted_wrt_map)
  have st: "filter (\<lambda>x. w x = k) (map snd ?ps) = filter (\<lambda>x. w x = k) xs" for k
  proof -
    have "filter (\<lambda>x. w x = k) (map snd ?ps) = map snd (filter (\<lambda>p. w (snd p) = k) ?ps)"
      by (simp add: filter_map comp_def)
    also have "filter (\<lambda>p. w (snd p) = k) ?ps = filter (\<lambda>p. fst p = k) ?ps"
      using dec by (intro filter_cong) auto
    also have "\<dots> = rev (filter (\<lambda>p. fst p = k) (sort_key fst (rev (map ?d xs))))"
      by (simp add: rev_filter)
    also have "\<dots> = rev (filter (\<lambda>p. fst p = k) (rev (map ?d xs)))"
      by (simp only: sort_key_stable)
    also have "\<dots> = filter (\<lambda>p. fst p = k) (map ?d xs)"
      by (simp add: rev_filter)
    also have "map snd \<dots> = filter (\<lambda>x. w x = k) xs"
      by (simp add: filter_map comp_def)
    finally show ?thesis .
  qed
  from eq m s st show ?thesis by blast
qed

lemma sort_position_less:
  "in_sort_order order m \<Longrightarrow> sort_position order m < length order"
  by (auto simp: in_sort_order_def sort_position_def takeWhile_pos_less split: option.splits)

text \<open>
  The comprehension and the sort of \<open>get_course_modes\<close>, on a list of course modes
  that all carry a \<open>slug\<close>: the result is a permutation of the modes whose slug is not
  excluded, ordered by position in the sort order with the slugs outside it last, and
  modes of equal weight keep the order they had in the input.
\<close>

lemma select_course_modes_filters_and_sorts:
  assumes slugs: "\<forall>m \<in> set modes. has_slug m"
  shows "\<exists>res. select_course_modes order excluded modes = Inr res
     \<and> mset res = mset (filter (\<lambda>m. \<not> is_excluded excluded m) modes)
     \<and> sorted_wrt (\<lambda>a b. in_sort_order order b \<longrightarrow>
           in_sort_order order a \<and> sort_position order a \<le> sort_position order b) res
     \<and> (\<forall>k. filter (\<lambda>m. slug_weight order m = Inr k) res =
             filter (\<lambda>m. slug_weight order m = Inr k)
               (filter (\<lambda>m. \<not> is_excluded excluded m) modes))"
proof -
  let ?kept = "filter (\<lambda>m. \<not> is_excluded excluded m) modes"
  let ?w = "\<lambda>m. if in_sort_order order m
                 then int (length order) - int (sort_position order m) else 0"
  have kept: "not_excluded_modes excluded modes = Inr ?kept"
    using slugs by (rule not_excluded_modes_filter)
  have keys: "\<forall>m \<in> set ?kept. slug_weight order m = Inr (?w m)"
    using slugs by (simp add: slug_weight_total)
  from sorted_reverse_total[OF keys] obtain res where
    res: "sorted_reverse (slug_weight order) ?kept = Inr res"
    and perm: "mset res = mset ?kept"
    and desc: "sorted_wrt (\<lambda>a b. ?w a \<ge> ?w b) res"
    and stable: "\<And>k. filter (\<lambda>m. ?w m = k) res = filter (\<lambda>m. ?w m = k) ?kept"
    by blast
  have sel: "select_course_modes order excluded modes = Inr res"
    by (simp add: select_course_modes_def kept sort_course_modes_def res)
  have ord: "sorted_wrt (\<lambda>a b. in_sort_order order b \<longrightarrow>
           in_sort_order order a \<and> sort_position order a \<le> sort_position order b) res"
  proof (rule sorted_wrt_mono_rel[OF _ desc])
    fix a b assume le: "?w b \<le> ?w a"
    show "in_sort_order order b \<longrightarrow>
           in_sort_order order a \<and> sort_position order a \<le> sort_position order b"
    proof
      assume b: "in_sort_order order b"
      then have "sort_position order b < length order" by (rule sort_position_less)
      with b le have pos: "0 < ?w a" by simp
      then have a: "in_sort_order order a" by (simp split: if_splits)
      with b le show "in_sort_order order a \<and> sort_position order a \<le> sort_position order b"
        by simp
    qed
  qed
  have set_res: "set res = set ?kept"
    using perm by (metis set_mset_mset)
  have st: "filter (\<lambda>m. slug_weight order m = Inr k) res =
             filter (\<lambda>m. slug_weight order m = Inr k) ?kept" for k
  proof -
    have "filter (\<lambda>m. slug_weight order m = Inr k) res = filter (\<lambda>m. ?w m = k) res"
      using keys set_res by (intro filter_cong) auto
    also have "\<dots> = filter (\<lambda>m. ?w m = k) ?kept" by (rule stable)
    also have "\<dots> = filter (\<lambda>m. slug_weight order m = Inr k) ?kept"
      using keys by (intro filter_cong) auto
    finally show ?thesis .
  qed
  from sel perm ord st show ?thesis by blast
qed

lemma example_modes_selected: "select_course_modes [''verified'', ''professional'', ''audit''] [''credit''] example_modes =
        Inr [[(''slug'', ''verified'')],
             [(''slug'', ''audit''), (''name'', ''Audit'')],
             [(''slug'', ''audit''), (''name'', ''Audit again'')],
             [(''name'', ''Honor''), (''slug'', ''honor'')],
             [(''slug'', ''no-id-professional'')]]"
  by (simp add: example_modes_def select_course_modes_def sort_course_modes_def sorted_reverse_def slug_weight_def mode_slug_def)

section \<open>Single passes of the transmitter loops\<close>

lemma transmit_record_in_progress:
  "\<not> course_completed ld \<Longrightarrow>
   transmit_record P i ld s =
     (None, ld,
      s\<lparr>trace := trace s @ [(i, Serialize ld)],
        logs := logs s @ [Info ''Skipping in-progress enterprise enrollment''
                            (enterprise_course_enrollment_id ld)]\<rparr>)"
  by (simp add: transmit_record_def Let_def)

lemma transmit_record_already_sent:
  "course_completed ld \<Longrightarrow>
   is_already_transmitted P (audit s) (enterprise_course_enrollment_id ld) (grade ld) None \<Longrightarrow>
   transmit_record P i ld s =
     (None, ld,
      s\<lparr>trace := trace s @ [(i, Serialize ld)],
        logs := logs s @ [Info ''Skipping previously sent enterprise enrollment''
                            (enterprise_course_enrollment_id ld)]\<rparr>)"
  by (simp add: transmit_record_def Let_def)

lemma try_create_course_completion_accepted:
  "getattr ld (remote_user_id P) = Inr u \<Longrightarrow>
   create_course_completion P u payload (partner s) = (Inr (code, body), w') \<Longrightarrow>
   code < 400 \<Longrightarrow>
   try_create_course_completion P i ld payload s =
     (Inr (code, body),
      s\<lparr>partner := w', trace := trace s @ [(i, Post u payload)],
        logs := logs s @ [Info ''Successfully sent completion status call''
                            (enterprise_course_enrollment_id ld)]\<rparr>)"
  by (simp add: try_create_course_completion_def Let_def)

lemma try_create_course_completion_rejected:
  "getattr ld (remote_user_id P) = Inr u \<Longrightarrow>
   create_course_completion P u payload (partner s) = (Inr (code, body), w') \<Longrightarrow>
   400 \<le> code \<Longrightarrow>
   try_create_course_completion P i ld payload s =
     (Inr (code, ''Client create_course_completion failed: '' @ body),
      s\<lparr>partner := w', trace := trace s @ [(i, Post u payload)],
        logs := logs s @ [Exception_logged ''Failed to send completion status call''
                            (enterprise_course_enrollment_id ld)]\<rparr>)"
  by (simp add: try_create_course_completion_def Let_def)

lemma try_create_course_completion_client_error:
  "getattr ld (remote_user_id P) = Inr u \<Longrightarrow>
   create_course_completion P u payload (partner s) = (Inl (ClientError message status_code), w') \<Longrightarrow>
   try_create_course_completion P i ld payload s =
     (Inr (status_code, message),
      s\<lparr>partner := w', trace := trace s @ [(i, Post u payload)],
        logs := logs s @ [Exception_logged ''Failed to send completion status call''
                            (enterprise_course_enrollment_id ld)]\<rparr>)"
  by (simp add: try_create_course_completion_def Let_def)

lemma try_create_course_completion_other:
  "getattr ld (remote_user_id P) = Inr u \<Longrightarrow>
   create_course_completion P u payload (partner s) = (Inl exc, w') \<Longrightarrow>
   \<forall>message status_code. exc \<noteq> ClientError message status_code \<Longrightarrow>
   try_create_course_completion P i ld payload s =
     (Inl exc,
      s\<lparr>partner := w', trace := trace s @ [(i, Post u payload)],
        logs := logs s @ [Exception_logged ''create_assessment_reporting failed with Exception''
                            (enterprise_course_enrollment_id ld)]\<rparr>)"
  by (cases exc) (simp_all add: try_create_course_completion_def Let_def)

lemma try_create_assessment_reporting_response:
  "getattr ld (remote_user_id P) = Inr u \<Longrightarrow>
   create_assessment_reporting P u payload (partner s) = (Inr (code, body), w') \<Longrightarrow>
   try_create_assessment_reporting P flag i ld payload s =
     (Inr (code, body),
      s\<lparr>partner := w', trace := trace s @ [(i, Post u payload)],
        logs := logs s @ (if flag then [Info ''create_assessment_reporting successfully completed''
                            (enterprise_course_enrollment_id ld)] else [])\<rparr>)"
  by (simp add: try_create_assessment_reporting_def Let_def)

lemma try_create_assessment_reporting_client_error:
  "getattr ld (remote_user_id P) = Inr u \<Longrightarrow>
   create_assessment_reporting P u payload (partner s) = (Inl (ClientError message status_code), w') \<Longrightarrow>
   try_create_assessment_reporting P flag i ld payload s =
     (Inr (status_code, message),
      s\<lparr>partner := w', trace := trace s @ [(i, Post u payload)],
        logs := logs s @ [Exception_logged ''Failed to send completion status call''
                            (enterprise_course_enrollment_id ld)]\<rparr>)"
  by (simp add: try_create_assessment_reporting_def Let_def)

lemma try_create_assessment_reporting_other:
  "getattr ld (remote_user_id P) = Inr u \<Longrightarrow>
   create_assessment_reporting P u payload (partner s) = (Inl exc, w') \<Longrightarrow>
   \<forall>message status_code. exc \<noteq> ClientError message status_code \<Longrightarrow>
   try_create_assessment_reporting P flag i ld payload s =
     (Inl exc,
      s\<lparr>partner := w', trace := trace s @ [(i, Post u payload)],
        logs := logs s @ [Exception_logged ''create_assessment_reporting failed with Exception''
                            (enterprise_course_enrollment_id ld)]\<rparr>)"
  by (cases exc) (simp_all add: try_create_assessment_reporting_def Let_def)

text \<open>
  Claim C10. \<open>transmit\<close> sends completion calls only for completed courses: for a
  record whose \<open>course_completed\<close> is false the client is not called (no call is
  added to the trace and the partner's state is unchanged), the record leaves the loop
  body as it entered it, with its \<open>status\<close> and \<open>error_message\<close>, nothing is
  saved, and the loop goes on with the next record.
\<close>

theorem transmit_skips_course_not_completed:
  assumes "\<not> course_completed ld"
  shows "\<exists>s'. transmit_record P i ld s = (None, ld, s')
      \<and> partner s' = partner s
      \<and> audit s' = audit s
      \<and> trace s' = trace s @ [(i, Serialize ld)]
      \<and> transmit_from P i (ld # rest) s = transmit_from P (Suc i) rest s'"
  using assms by (simp add: transmit_record_in_progress)

theorem transmit_skips_course_not_completed_witness:
  "\<not> course_completed (example_record 7 ''course-v1:A+B+C'' False ''In Progress'')
   \<and> (\<exists>s'. transmit_record (example_channel accepting_partner) 0
              (example_record 7 ''course-v1:A+B+C'' False ''In Progress'') initial_state
            = (None, example_record 7 ''course-v1:A+B+C'' False ''In Progress'', s')
      \<and> partner s' = partner initial_state
      \<and> audit s' = audit initial_state
      \<and> trace s' = trace initial_state
           @ [(0, Serialize (example_record 7 ''course-v1:A+B+C'' False ''In Progress''))]
      \<and> transmit_from (example_channel accepting_partner) 0
           [example_record 7 ''course-v1:A+B+C'' False ''In Progress''] initial_state
         = transmit_from (example_channel accepting_partner) (Suc 0) [] s')"
proof -
  have h: "\<not> course_completed (example_record 7 ''course-v1:A+B+C'' False ''In Progress'')"
    by (simp add: example_record_def)
  from transmit_skips_course_not_completed[OF h, of "example_channel accepting_partner" 0 initial_state "[]"] h
  show ?thesis by blast
qed


lemma transmit_record_sent:
  assumes "course_completed ld"
    and "\<not> is_already_transmitted P (audit s) (enterprise_course_enrollment_id ld) (grade ld) None"
    and "try_create_course_completion P i ld (serialize P ld)
           (s\<lparr>trace := trace s @ [(i, Serialize ld)]\<rparr>) = (Inr (code, body), s2)"
  shows "transmit_record P i ld s =
           (None, ld\<lparr>status := str code, error_message := (if 400 \<le> code then body else [])\<rparr>,
            save i (ld\<lparr>status := str code, error_message := (if 400 \<le> code then body else [])\<rparr>) s2)"
  using assms by (simp add: transmit_record_def record_result_def Let_def)

lemma transmit_record_raised:
  assumes "course_completed ld"
    and "\<not> is_already_transmitted P (audit s) (enterprise_course_enrollment_id ld) (grade ld) None"
    and "try_create_course_completion P i ld (serialize P ld)
           (s\<lparr>trace := trace s @ [(i, Serialize ld)]\<rparr>) = (Inl exc, s2)"
  shows "transmit_record P i ld s = (Some exc, ld, s2)"
  using assms by (simp add: transmit_record_def Let_def)


lemma assessment_level_record_sent:
  assumes "\<not> is_already_transmitted P (audit s) (enterprise_course_enrollment_id ld) (grade ld)
              (subsection_id ld)"
    and "try_create_assessment_reporting P True i ld (serialize P ld)
           (s\<lparr>trace := trace s @ [(i, Serialize ld)]\<rparr>) = (Inr (code, body), s2)"
  shows "assessment_level_record P i ld s =
           (None, ld\<lparr>status := str code, error_message := (if 400 \<le> code then body else [])\<rparr>,
            save i (ld\<lparr>status := str code, error_message := (if 400 \<le> code then body else [])\<rparr>) s2)"
  using assms by (simp add: assessment_level_record_def record_result_def Let_def)

lemma assessment_level_record_raised:
  assumes "\<not> is_already_transmitted P (audit s) (enterprise_course_enrollment_id ld) (grade ld)
              (subsection_id ld)"
    and "try_create_assessment_reporting P True i ld (serialize P ld)
           (s\<lparr>trace := trace s @ [(i, Serialize ld)]\<rparr>) = (Inl exc, s2)"
  shows "assessment_level_record P i ld s = (Some exc, ld, s2)"
  using assms by (simp add: assessment_level_record_def Let_def)

lemma single_learner_record_sent:
  assumes "try_create_assessment_reporting P False i ld (serialize P ld)
           (s\<lparr>logs := logs s @ [Info ''create_assessment_reporting started''
                                   (enterprise_course_enrollment_id ld)],
              trace := trace s @ [(i, Serialize ld)]\<rparr>) = (Inr (code, body), s2)"
  shows "single_learner_assessment_grade_record P i ld s =
           (None, ld\<lparr>status := str code, error_message := (if 400 \<le> code then body else [])\<rparr>,
            save i (ld\<lparr>status := str code, error_message := (if 400 \<le> code then body else [])\<rparr>) s2)"
  using assms by (simp add: single_learner_assessment_grade_record_def record_result_def Let_def)

lemma single_learner_record_raised:
  assumes "try_create_assessment_reporting P False i ld (serialize P ld)
           (s\<lparr>logs := logs s @ [Info ''create_assessment_reporting started''
                                   (enterprise_course_enrollment_id ld)],
              trace := trace s @ [(i, Serialize ld)]\<rparr>) = (Inl exc, s2)"
  shows "single_learner_assessment_grade_record P i ld s = (Some exc, ld, s2)"
  using assms by (simp add: single_learner_assessment_grade_record_def Let_def)


text \<open>
  Claim C5, as stated, fails in \<open>transmit\<close>: a response of 400 or more is turned into a
  \<open>ClientError\<close> whose message is the body behind a fixed prefix, and that message is
  what \<open>error_message\<close> receives. The partner answers \<open>(500, 'oops')\<close>; the record is
  saved with a message that is not the response body.
\<close>

theorem error_message_is_response_body_counterexample:
  "create_course_completion (example_channel rejecting_partner) ''learner-1''
       ''course-v1:A+B+C'' 0 = (Inr (500, ''oops''), Suc 0)
   \<and> fst (transmit_record (example_channel rejecting_partner) 0
            (example_record 7 ''course-v1:A+B+C'' True ''Pass'') initial_state) = None
   \<and> error_message (fst (snd (transmit_record (example_channel rejecting_partner) 0
            (example_record 7 ''course-v1:A+B+C'' True ''Pass'') initial_state)))
       = ''Client create_course_completion failed: oops''
   \<and> error_message (fst (snd (transmit_record (example_channel rejecting_partner) 0
            (example_record 7 ''course-v1:A+B+C'' True ''Pass'') initial_state)))
       \<noteq> ''oops''"
  by (simp add: transmit_record_def try_create_course_completion_def record_result_def
      save_def example_channel_def example_record_def initial_state_def rejecting_partner_def
      getattr_def is_already_transmitted_model_def Let_def)

text \<open>
  Claim C5, amended. After a transmission attempt that is not skipped and ends in a
  response or in a \<open>ClientError\<close>, the record has the decimal string of the status
  code as \<open>status\<close>, a message as \<open>error_message\<close> when the code is 400 or more and
  the empty string otherwise, and it is saved. The message is the response body in
  \<open>assessment_level_transmit\<close> and \<open>single_learner_assessment_grade_transmit\<close>, the
  text \<open>Client create_course_completion failed: \<close> followed by the response body in
  \<open>transmit\<close>, and the message of the \<open>ClientError\<close> where the client raised one.
\<close>

theorem transmission_result_is_recorded:
  assumes user: "getattr ld (remote_user_id P) = Inr u"
  shows
    "(\<forall>code body w'.
        course_completed ld
        \<and> \<not> is_already_transmitted P (audit s) (enterprise_course_enrollment_id ld) (grade ld) None
        \<and> create_course_completion P u (serialize P ld) (partner s) = (Inr (code, body), w')
        \<longrightarrow> (\<exists>s'. transmit_record P i ld s =
                    (None, recorded_as ld code (''Client create_course_completion failed: '' @ body), s')
               \<and> audit s' = audit s @ [recorded_as ld code (''Client create_course_completion failed: '' @ body)]
               \<and> trace s' = trace s @ [(i, Serialize ld), (i, Post u (serialize P ld)),
                    (i, Save (recorded_as ld code (''Client create_course_completion failed: '' @ body)))]))
   \<and> (\<forall>code message w'.
        course_completed ld
        \<and> \<not> is_already_transmitted P (audit s) (enterprise_course_enrollment_id ld) (grade ld) None
        \<and> create_course_completion P u (serialize P ld) (partner s) = (Inl (ClientError message code), w')
        \<longrightarrow> (\<exists>s'. transmit_record P i ld s = (None, recorded_as ld code message, s')
               \<and> audit s' = audit s @ [recorded_as ld code message]
               \<and> trace s' = trace s @ [(i, Serialize ld), (i, Post u (serialize P ld)),
                    (i, Save (recorded_as ld code message))]))
   \<and> (\<forall>code body w'.
        \<not> is_already_transmitted P (audit s) (enterprise_course_enrollment_id ld) (grade ld)
            (subsection_id ld)
        \<and> (create_assessment_reporting P u (serialize P ld) (partner s) = (Inr (code, body), w')
           \<or> create_assessment_reporting P u (serialize P ld) (partner s) = (Inl (ClientError body code), w'))
        \<longrightarrow> (\<exists>s'. assessment_level_record P i ld s = (None, recorded_as ld code body, s')
               \<and> audit s' = audit s @ [recorded_as ld code body]
               \<and> trace s' = trace s @ [(i, Serialize ld), (i, Post u (serialize P ld)),
                    (i, Save (recorded_as ld code body))]))
   \<and> (\<forall>code body w'.
        (create_assessment_reporting P u (serialize P ld) (partner s) = (Inr (code, body), w')
           \<or> create_assessment_reporting P u (serialize P ld) (partner s) = (Inl (ClientError body code), w'))
        \<longrightarrow> (\<exists>s'. single_learner_assessment_grade_record P i ld s = (None, recorded_as ld code body, s')
               \<and> audit s' = audit s @ [recorded_as ld code body]
               \<and> trace s' = trace s @ [(i, Serialize ld), (i, Post u (serialize P ld)),
                    (i, Save (recorded_as ld code body))]))"
proof (intro conjI allI impI)
  fix code body w'
  assume a: "course_completed ld
        \<and> \<not> is_already_transmitted P (audit s) (enterprise_course_enrollment_id ld) (grade ld) None
        \<and> create_course_completion P u (serialize P ld) (partner s) = (Inr (code, body), w')"
  show "\<exists>s'. transmit_record P i ld s =
                    (None, recorded_as ld code (''Client create_course_completion failed: '' @ body), s')
               \<and> audit s' = audit s @ [recorded_as ld code (''Client create_course_completion failed: '' @ body)]
               \<and> trace s' = trace s @ [(i, Serialize ld), (i, Post u (serialize P ld)),
                    (i, Save (recorded_as ld code (''Client create_course_completion failed: '' @ body)))]"
  proof (cases "400 \<le> code")
    case True
    from a True show ?thesis
      by (simp add: transmit_record_sent
          try_create_course_completion_rejected[OF user] recorded_as_def save_def)
  next
    case False
    then have lt: "code < 400" by simp
    from a lt show ?thesis
      by (simp add: transmit_record_sent
          try_create_course_completion_accepted[OF user] recorded_as_def save_def)
  qed
next
  fix code message w'
  assume a: "course_completed ld
        \<and> \<not> is_already_transmitted P (audit s) (enterprise_course_enrollment_id ld) (grade ld) None
        \<and> create_course_completion P u (serialize P ld) (partner s) = (Inl (ClientError message code), w')"
  then show "\<exists>s'. transmit_record P i ld s = (None, recorded_as ld code message, s')
               \<and> audit s' = audit s @ [recorded_as ld code message]
               \<and> trace s' = trace s @ [(i, Serialize ld), (i, Post u (serialize P ld)),
                    (i, Save (recorded_as ld code message))]"
    by (simp add: transmit_record_sent
        try_create_course_completion_client_error[OF user] recorded_as_def save_def)
next
  fix code body w'
  assume a: "\<not> is_already_transmitted P (audit s) (enterprise_course_enrollment_id ld) (grade ld)
            (subsection_id ld)
        \<and> (create_assessment_reporting P u (serialize P ld) (partner s) = (Inr (code, body), w')
           \<or> create_assessment_reporting P u (serialize P ld) (partner s) = (Inl (ClientError body code), w'))"
  then show "\<exists>s'. assessment_level_record P i ld s = (None, recorded_as ld code body, s')
               \<and> audit s' = audit s @ [recorded_as ld code body]
               \<and> trace s' = trace s @ [(i, Serialize ld), (i, Post u (serialize P ld)),
                    (i, Save (recorded_as ld code body))]"
    by (auto simp add: assessment_level_record_sent
        try_create_assessment_reporting_response[OF user]
        try_create_assessment_reporting_client_error[OF user] recorded_as_def save_def)
next
  fix code body w'
  assume a: "create_assessment_reporting P u (serialize P ld) (partner s) = (Inr (code, body), w')
           \<or> create_assessment_reporting P u (serialize P ld) (partner s) = (Inl (ClientError body code), w')"
  then show "\<exists>s'. single_learner_assessment_grade_record P i ld s = (None, recorded_as ld code body, s')
               \<and> audit s' = audit s @ [recorded_as ld code body]
               \<and> trace s' = trace s @ [(i, Serialize ld), (i, Post u (serialize P ld)),
                    (i, Save (recorded_as ld code body))]"
    by (auto simp add: single_learner_record_sent
        try_create_assessment_reporting_response[OF user]
        try_create_assessment_reporting_client_error[OF user] recorded_as_def save_def)
qed


lemma str_examples: "str 200 = ''200''" "str 500 = ''500''" "str 403 = ''403''" "str (- 1) = ''-1''"
  by (simp_all add: str_def str_nat.simps digit_char_def)

theorem transmission_result_is_recorded_witness:
  "getattr (example_record 7 ''course-v1:A+B+C'' True ''Pass'')
       (remote_user_id (example_channel rejecting_partner)) = Inr ''learner-1''
   \<and> (\<exists>s'. transmit_record (example_channel rejecting_partner) 0
               (example_record 7 ''course-v1:A+B+C'' True ''Pass'') initial_state
             = (None,
                recorded_as (example_record 7 ''course-v1:A+B+C'' True ''Pass'') 500
                  ''Client create_course_completion failed: oops'', s')
          \<and> audit s' =
              [recorded_as (example_record 7 ''course-v1:A+B+C'' True ''Pass'') 500
                 ''Client create_course_completion failed: oops''])
   \<and> status (recorded_as (example_record 7 ''course-v1:A+B+C'' True ''Pass'') 500
                 ''Client create_course_completion failed: oops'') = ''500''"
proof -
  let ?P = "example_channel rejecting_partner"
  let ?ld = "example_record 7 ''course-v1:A+B+C'' True ''Pass''"
  have h: "getattr ?ld (remote_user_id ?P) = Inr ''learner-1''"
    by (simp add: getattr_def example_record_def example_channel_def)
  have pre: "course_completed ?ld
        \<and> \<not> is_already_transmitted ?P (audit initial_state)
              (enterprise_course_enrollment_id ?ld) (grade ?ld) None
        \<and> create_course_completion ?P ''learner-1'' (serialize ?P ?ld) (partner initial_state)
            = (Inr (500, ''oops''), Suc 0)"
    by (simp add: example_record_def example_channel_def initial_state_def
        is_already_transmitted_model_def rejecting_partner_def)
  from transmission_result_is_recorded[OF h, of initial_state 0]
  have "\<forall>code body w'.
        course_completed ?ld
        \<and> \<not> is_already_transmitted ?P (audit initial_state)
              (enterprise_course_enrollment_id ?ld) (grade ?ld) None
        \<and> create_course_completion ?P ''learner-1'' (serialize ?P ?ld) (partner initial_state)
            = (Inr (code, body), w')
        \<longrightarrow> (\<exists>s'. transmit_record ?P 0 ?ld initial_state =
                    (None, recorded_as ?ld code (''Client create_course_completion failed: '' @ body), s')
               \<and> audit s' = audit initial_state
                    @ [recorded_as ?ld code (''Client create_course_completion failed: '' @ body)]
               \<and> trace s' = trace initial_state @ [(0, Serialize ?ld), (0, Post ''learner-1'' (serialize ?P ?ld)),
                    (0, Save (recorded_as ?ld code (''Client create_course_completion failed: '' @ body)))])"
    by (rule conjunct1)
  with pre have "\<exists>s'. transmit_record ?P 0 ?ld initial_state =
                    (None, recorded_as ?ld 500 (''Client create_course_completion failed: '' @ ''oops''), s')
               \<and> audit s' = audit initial_state
                    @ [recorded_as ?ld 500 (''Client create_course_completion failed: '' @ ''oops'')]
               \<and> trace s' = trace initial_state @ [(0, Serialize ?ld), (0, Post ''learner-1'' (serialize ?P ?ld)),
                    (0, Save (recorded_as ?ld 500 (''Client create_course_completion failed: '' @ ''oops'')))]"
    by blast
  then have "\<exists>s'. transmit_record ?P 0 ?ld initial_state
             = (None, recorded_as ?ld 500 ''Client create_course_completion failed: oops'', s')
          \<and> audit s' = [recorded_as ?ld 500 ''Client create_course_completion failed: oops'']"
    by (auto simp add: initial_state_def)
  moreover have "status (recorded_as ?ld 500 ''Client create_course_completion failed: oops'') = ''500''"
    by (simp add: recorded_as_def str_examples)
  ultimately show ?thesis using h by blast
qed


text \<open>
  Claim C2, as stated, fails: only a \<open>ClientError\<close> is logged and passed over. Any
  other exception of the client call is logged and raised again, which ends the loop.
  The partner times out on the first of two records; in each of the three methods the
  exception leaves the loop and the second record is never serialised.
\<close>

theorem log_and_continue_counterexample:
  "fst (transmit (example_channel timeout_partner)
          [example_record 7 ''course-v1:A+B+C'' True ''Pass'',
           example_record 8 ''course-v1:D+E+F'' True ''Pass''] initial_state) = Some Timeout
   \<and> serialized (trace (snd (transmit (example_channel timeout_partner)
          [example_record 7 ''course-v1:A+B+C'' True ''Pass'',
           example_record 8 ''course-v1:D+E+F'' True ''Pass''] initial_state)))
       = [example_record 7 ''course-v1:A+B+C'' True ''Pass'']
   \<and> fst (assessment_level_transmit (example_channel timeout_partner)
          [example_record 7 ''course-v1:A+B+C'' True ''Pass'',
           example_record 8 ''course-v1:D+E+F'' True ''Pass''] initial_state) = Some Timeout
   \<and> serialized (trace (snd (assessment_level_transmit (example_channel timeout_partner)
          [example_record 7 ''course-v1:A+B+C'' True ''Pass'',
           example_record 8 ''course-v1:D+E+F'' True ''Pass''] initial_state)))
       = [example_record 7 ''course-v1:A+B+C'' True ''Pass'']
   \<and> fst (single_learner_assessment_grade_transmit (example_channel timeout_partner)
          [example_record 7 ''course-v1:A+B+C'' True ''Pass'',
           example_record 8 ''course-v1:D+E+F'' True ''Pass''] initial_state) = Some Timeout
   \<and> serialized (trace (snd (single_learner_assessment_grade_transmit (example_channel timeout_partner)
          [example_record 7 ''course-v1:A+B+C'' True ''Pass'',
           example_record 8 ''course-v1:D+E+F'' True ''Pass''] initial_state)))
       = [example_record 7 ''course-v1:A+B+C'' True ''Pass'']"
  by (simp add: transmit_def transmit_record_def try_create_course_completion_def
      assessment_level_transmit_def assessment_level_record_def
      single_learner_assessment_grade_transmit_def single_learner_assessment_grade_record_def
      try_create_assessment_reporting_def
      example_channel_def example_record_def initial_state_def timeout_partner_def
      getattr_def is_already_transmitted_model_def Let_def)

text \<open>
  Claim C2, amended. When the client call for a record raises a \<open>ClientError\<close>, each of
  \<open>transmit\<close>, \<open>assessment_level_transmit\<close> and
  \<open>single_learner_assessment_grade_transmit\<close> logs the error and goes on with the
  remaining records. When the client call raises any other exception, the exception is
  logged and raised again: the loop ends there, with the record serialised and posted
  but not saved, and the remaining records are not processed.
\<close>

theorem client_error_is_logged_and_skipped:
  assumes user: "getattr ld (remote_user_id P) = Inr u"
  shows
    "(\<forall>message code w'.
        course_completed ld
        \<and> \<not> is_already_transmitted P (audit s) (enterprise_course_enrollment_id ld) (grade ld) None
        \<and> create_course_completion P u (serialize P ld) (partner s) = (Inl (ClientError message code), w')
        \<longrightarrow> (\<exists>s'. transmit_from P i (ld # rest) s = transmit_from P (Suc i) rest s'
               \<and> logs s' = logs s @ [Exception_logged ''Failed to send completion status call''
                                       (enterprise_course_enrollment_id ld)]))
   \<and> (\<forall>exc w'.
        course_completed ld
        \<and> \<not> is_already_transmitted P (audit s) (enterprise_course_enrollment_id ld) (grade ld) None
        \<and> create_course_completion P u (serialize P ld) (partner s) = (Inl exc, w')
        \<and> (\<forall>message code. exc \<noteq> ClientError message code)
        \<longrightarrow> (\<exists>s'. transmit_from P i (ld # rest) s = (Some exc, s')
               \<and> logs s' = logs s @ [Exception_logged ''create_assessment_reporting failed with Exception''
                                       (enterprise_course_enrollment_id ld)]
               \<and> audit s' = audit s
               \<and> trace s' = trace s @ [(i, Serialize ld), (i, Post u (serialize P ld))]))
   \<and> (\<forall>message code w'.
        \<not> is_already_transmitted P (audit s) (enterprise_course_enrollment_id ld) (grade ld)
            (subsection_id ld)
        \<and> create_assessment_reporting P u (serialize P ld) (partner s) = (Inl (ClientError message code), w')
        \<longrightarrow> (\<exists>s'. assessment_level_transmit_from P i (ld # rest) s
                    = assessment_level_transmit_from P (Suc i) rest s'
               \<and> logs s' = logs s @ [Exception_logged ''Failed to send completion status call''
                                       (enterprise_course_enrollment_id ld)]))
   \<and> (\<forall>exc w'.
        \<not> is_already_transmitted P (audit s) (enterprise_course_enrollment_id ld) (grade ld)
            (subsection_id ld)
        \<and> create_assessment_reporting P u (serialize P ld) (partner s) = (Inl exc, w')
        \<and> (\<forall>message code. exc \<noteq> ClientError message code)
        \<longrightarrow> (\<exists>s'. assessment_level_transmit_from P i (ld # rest) s = (Some exc, s')
               \<and> logs s' = logs s @ [Exception_logged ''create_assessment_reporting failed with Exception''
                                       (enterprise_course_enrollment_id ld)]
               \<and> audit s' = audit s
               \<and> trace s' = trace s @ [(i, Serialize ld), (i, Post u (serialize P ld))]))
   \<and> (\<forall>message code w'.
        create_assessment_reporting P u (serialize P ld) (partner s) = (Inl (ClientError message code), w')
        \<longrightarrow> (\<exists>s'. single_learner_assessment_grade_transmit_from P i (ld # rest) s
                    = single_learner_assessment_grade_transmit_from P (Suc i) rest s'
               \<and> logs s' = logs s @ [Info ''create_assessment_reporting started''
                                       (enterprise_course_enrollment_id ld),
                                     Exception_logged ''Failed to send completion status call''
                                       (enterprise_course_enrollment_id ld)]))
   \<and> (\<forall>exc w'.
        create_assessment_reporting P u (serialize P ld) (partner s) = (Inl exc, w')
        \<and> (\<forall>message code. exc \<noteq> ClientError message code)
        \<longrightarrow> (\<exists>s'. single_learner_assessment_grade_transmit_from P i (ld # rest) s = (Some exc, s')
               \<and> logs s' = logs s @ [Info ''create_assessment_reporting started''
                                       (enterprise_course_enrollment_id ld),
                                     Exception_logged ''create_assessment_reporting failed with Exception''
                                       (enterprise_course_enrollment_id ld)]
               \<and> audit s' = audit s
               \<and> trace s' = trace s @ [(i, Serialize ld), (i, Post u (serialize P ld))]))"
proof (intro conjI allI impI)
  fix message code w'
  assume "course_completed ld
        \<and> \<not> is_already_transmitted P (audit s) (enterprise_course_enrollment_id ld) (grade ld) None
        \<and> create_course_completion P u (serialize P ld) (partner s) = (Inl (ClientError message code), w')"
  then show "\<exists>s'. transmit_from P i (ld # rest) s = transmit_from P (Suc i) rest s'
               \<and> logs s' = logs s @ [Exception_logged ''Failed to send completion status call''
                                       (enterprise_course_enrollment_id ld)]"
    by (fastforce simp add: transmit_record_sent
        try_create_course_completion_client_error[OF user] save_def)
next
  fix exc w'
  assume "course_completed ld
        \<and> \<not> is_already_transmitted P (audit s) (enterprise_course_enrollment_id ld) (grade ld) None
        \<and> create_course_completion P u (serialize P ld) (partner s) = (Inl exc, w')
        \<and> (\<forall>message code. exc \<noteq> ClientError message code)"
  then show "\<exists>s'. transmit_from P i (ld # rest) s = (Some exc, s')
               \<and> logs s' = logs s @ [Exception_logged ''create_assessment_reporting failed with Exception''
                                       (enterprise_course_enrollment_id ld)]
               \<and> audit s' = audit s
               \<and> trace s' = trace s @ [(i, Serialize ld), (i, Post u (serialize P ld))]"
    by (simp add: transmit_record_raised try_create_course_completion_other[OF user])
next
  fix message code w'
  assume "\<not> is_already_transmitted P (audit s) (enterprise_course_enrollment_id ld) (grade ld)
            (subsection_id ld)
        \<and> create_assessment_reporting P u (serialize P ld) (partner s) = (Inl (ClientError message code), w')"
  then show "\<exists>s'. assessment_level_transmit_from P i (ld # rest) s
                    = assessment_level_transmit_from P (Suc i) rest s'
               \<and> logs s' = logs s @ [Exception_logged ''Failed to send completion status call''
                                       (enterprise_course_enrollment_id ld)]"
    by (fastforce simp add: assessment_level_record_sent
        try_create_assessment_reporting_client_error[OF user] save_def)
next
  fix exc w'
  assume "\<not> is_already_transmitted P (audit s) (enterprise_course_enrollment_id ld) (grade ld)
            (subsection_id ld)
        \<and> create_assessment_reporting P u (serialize P ld) (partner s) = (Inl exc, w')
        \<and> (\<forall>message code. exc \<noteq> ClientError message code)"
  then show "\<exists>s'. assessment_level_transmit_from P i (ld # rest) s = (Some exc, s')
               \<and> logs s' = logs s @ [Exception_logged ''create_assessment_reporting failed with Exception''
                                       (enterprise_course_enrollment_id ld)]
               \<and> audit s' = audit s
               \<and> trace s' = trace s @ [(i, Serialize ld), (i, Post u (serialize P ld))]"
    by (simp add: assessment_level_record_raised try_create_assessment_reporting_other[OF user])
next
  fix message code w'
  assume "create_assessment_reporting P u (serialize P ld) (partner s) = (Inl (ClientError message code), w')"
  then show "\<exists>s'. single_learner_assessment_grade_transmit_from P i (ld # rest) s
                    = single_learner_assessment_grade_transmit_from P (Suc i) rest s'
               \<and> logs s' = logs s @ [Info ''create_assessment_reporting started''
                                       (enterprise_course_enrollment_id ld),
                                     Exception_logged ''Failed to send completion status call''
                                       (enterprise_course_enrollment_id ld)]"
    by (fastforce simp add: single_learner_record_sent
        try_create_assessment_reporting_client_error[OF user] save_def)
next
  fix exc w'
  assume "create_assessment_reporting P u (serialize P ld) (partner s) = (Inl exc, w')
        \<and> (\<forall>message code. exc \<noteq> ClientError message code)"
  then show "\<exists>s'. single_learner_assessment_grade_transmit_from P i (ld # rest) s = (Some exc, s')
               \<and> logs s' = logs s @ [Info ''create_assessment_reporting started''
                                       (enterprise_course_enrollment_id ld),
                                     Exception_logged ''create_assessment_reporting failed with Exception''
                                       (enterprise_course_enrollment_id ld)]
               \<and> audit s' = audit s
               \<and> trace s' = trace s @ [(i, Serialize ld), (i, Post u (serialize P ld))]"
    by (simp add: single_learner_record_raised try_create_assessment_reporting_other[OF user])
qed


theorem client_error_is_logged_and_skipped_witness:
  "getattr (example_record 7 ''course-v1:A+B+C'' True ''Pass'')
       (remote_user_id (example_channel client_error_partner)) = Inr ''learner-1''
   \<and> (\<exists>s'. transmit_from (example_channel client_error_partner) 0
               (example_record 7 ''course-v1:A+B+C'' True ''Pass''
                  # [example_record 8 ''course-v1:D+E+F'' True ''Pass'']) initial_state
             = transmit_from (example_channel client_error_partner) (Suc 0)
                 [example_record 8 ''course-v1:D+E+F'' True ''Pass''] s'
          \<and> logs s' = logs initial_state
               @ [Exception_logged ''Failed to send completion status call''
                    (enterprise_course_enrollment_id
                       (example_record 7 ''course-v1:A+B+C'' True ''Pass''))])
   \<and> fst (transmit (example_channel client_error_partner)
            [example_record 7 ''course-v1:A+B+C'' True ''Pass'',
             example_record 8 ''course-v1:D+E+F'' True ''Pass''] initial_state) = None
   \<and> serialized (trace (snd (transmit (example_channel client_error_partner)
            [example_record 7 ''course-v1:A+B+C'' True ''Pass'',
             example_record 8 ''course-v1:D+E+F'' True ''Pass''] initial_state)))
       = [example_record 7 ''course-v1:A+B+C'' True ''Pass'',
          example_record 8 ''course-v1:D+E+F'' True ''Pass'']"
proof -
  let ?P = "example_channel client_error_partner"
  let ?ld = "example_record 7 ''course-v1:A+B+C'' True ''Pass''"
  let ?rest = "[example_record 8 ''course-v1:D+E+F'' True ''Pass'']"
  have h: "getattr ?ld (remote_user_id ?P) = Inr ''learner-1''"
    by (simp add: getattr_def example_record_def example_channel_def)
  have pre: "course_completed ?ld
        \<and> \<not> is_already_transmitted ?P (audit initial_state)
              (enterprise_course_enrollment_id ?ld) (grade ?ld) None
        \<and> create_course_completion ?P ''learner-1'' (serialize ?P ?ld) (partner initial_state)
            = (Inl (ClientError ''denied'' 403), Suc 0)"
    by (simp add: example_record_def example_channel_def initial_state_def
        is_already_transmitted_model_def client_error_partner_def)
  from client_error_is_logged_and_skipped[OF h, of initial_state 0 ?rest]
  have "\<forall>message code w'.
        course_completed ?ld
        \<and> \<not> is_already_transmitted ?P (audit initial_state)
              (enterprise_course_enrollment_id ?ld) (grade ?ld) None
        \<and> create_course_completion ?P ''learner-1'' (serialize ?P ?ld) (partner initial_state)
            = (Inl (ClientError message code), w')
        \<longrightarrow> (\<exists>s'. transmit_from ?P 0 (?ld # ?rest) initial_state = transmit_from ?P (Suc 0) ?rest s'
               \<and> logs s' = logs initial_state @ [Exception_logged ''Failed to send completion status call''
                                       (enterprise_course_enrollment_id ?ld)])"
    by (rule conjunct1)
  with pre have step: "\<exists>s'. transmit_from ?P 0 (?ld # ?rest) initial_state = transmit_from ?P (Suc 0) ?rest s'
               \<and> logs s' = logs initial_state @ [Exception_logged ''Failed to send completion status call''
                                       (enterprise_course_enrollment_id ?ld)]"
    by blast
  have run: "fst (transmit ?P [?ld, example_record 8 ''course-v1:D+E+F'' True ''Pass''] initial_state) = None
     \<and> serialized (trace (snd (transmit ?P [?ld, example_record 8 ''course-v1:D+E+F'' True ''Pass'']
          initial_state)))
       = [?ld, example_record 8 ''course-v1:D+E+F'' True ''Pass'']"
    by (simp add: transmit_def transmit_record_def try_create_course_completion_def
      record_result_def save_def
      example_channel_def example_record_def initial_state_def client_error_partner_def
      getattr_def is_already_transmitted_model_def Let_def)
  from h step run show ?thesis by blast
qed








lemma serialized_append: "serialized (xs @ ys) = serialized xs @ serialized ys"
  by (induction xs rule: serialized.induct) simp_all

lemma try_create_course_completion_trace:
  assumes "try_create_course_completion P i ld (serialize P ld) s = (r, s2)"
  shows "(trace s2 = trace s \<and> (\<exists>exc. r = Inl exc))
       \<or> (\<exists>u. getattr ld (remote_user_id P) = Inr u
              \<and> trace s2 = trace s @ [(i, Post u (serialize P ld))])"
  using assms
  by (auto simp add: try_create_course_completion_def Let_def
      split: sum.splits prod.splits py_exception.splits if_splits)

lemma try_create_course_completion_audit:
  assumes "try_create_course_completion P i ld payload s = (r, s2)"
  shows "audit s2 = audit s"
  using assms
  by (auto simp add: try_create_course_completion_def Let_def
      split: sum.splits prod.splits py_exception.splits if_splits)

lemma transmit_record_block:
  assumes "transmit_record P i ld s = (r, ld', s')"
  shows "\<exists>blk. trace s' = trace s @ (i, Serialize ld) # blk
      \<and> sorted_wrt effect_before ((i, Serialize ld) # blk)
      \<and> (\<forall>e \<in> set blk. fst e = i \<and> effect_of_record P ld (snd e))
      \<and> serialized blk = []"
proof (cases "course_completed ld \<and>
    \<not> is_already_transmitted P (audit s) (enterprise_course_enrollment_id ld) (grade ld) None")
  case False
  with assms have "trace s' = trace s @ [(i, Serialize ld)]"
    by (auto simp add: transmit_record_def Let_def split: if_splits)
  then show ?thesis by simp
next
  case True
  let ?s1 = "s\<lparr>trace := trace s @ [(i, Serialize ld)]\<rparr>"
  obtain t s2 where t: "try_create_course_completion P i ld (serialize P ld) ?s1 = (t, s2)"
    by (cases "try_create_course_completion P i ld (serialize P ld) ?s1")
  show ?thesis
  proof (cases t)
    case (Inl exc)
    with True t assms have s': "s' = s2"
      by (simp add: transmit_record_raised)
    from try_create_course_completion_trace[OF t]
    show ?thesis
    proof
      assume "trace s2 = trace ?s1 \<and> (\<exists>exc. t = Inl exc)"
      with s' have "trace s' = trace s @ [(i, Serialize ld)]" by simp
      then show ?thesis by simp
    next
      assume "\<exists>u. getattr ld (remote_user_id P) = Inr u
              \<and> trace s2 = trace ?s1 @ [(i, Post u (serialize P ld))]"
      then obtain u where u: "getattr ld (remote_user_id P) = Inr u"
        and tr: "trace s2 = trace ?s1 @ [(i, Post u (serialize P ld))]" by blast
      from tr s' have "trace s' = trace s @ (i, Serialize ld) # [(i, Post u (serialize P ld))]"
        by simp
      moreover have "sorted_wrt effect_before ((i, Serialize ld) # [(i, Post u (serialize P ld))])"
        by (simp add: effect_before_def)
      moreover have "\<forall>e \<in> set [(i, Post u (serialize P ld))]. fst e = i \<and> effect_of_record P ld (snd e)"
        using u by simp
      moreover have "serialized [(i, Post u (serialize P ld))] = []" by simp
      ultimately show ?thesis by blast
    qed
  next
    case (Inr cb)
    obtain code body where cb: "cb = (code, body)" by (cases cb)
    let ?rec = "ld\<lparr>status := str code, error_message := (if 400 \<le> code then body else [])\<rparr>"
    from True t Inr cb assms have s': "s' = save i ?rec s2"
      by (auto simp add: transmit_record_sent)
    from try_create_course_completion_trace[OF t] Inr
    obtain u where u: "getattr ld (remote_user_id P) = Inr u"
      and tr: "trace s2 = trace ?s1 @ [(i, Post u (serialize P ld))]" by auto
    from tr s' have "trace s' = trace s @ (i, Serialize ld)
                       # [(i, Post u (serialize P ld)), (i, Save ?rec)]"
      by (simp add: save_def)
    moreover have "sorted_wrt effect_before
        ((i, Serialize ld) # [(i, Post u (serialize P ld)), (i, Save ?rec)])"
      by (simp add: effect_before_def)
    moreover have "\<forall>e \<in> set [(i, Post u (serialize P ld)), (i, Save ?rec)].
        fst e = i \<and> effect_of_record P ld (snd e)"
      using u by simp
    moreover have "serialized [(i, Post u (serialize P ld)), (i, Save ?rec)] = []" by simp
    ultimately show ?thesis by blast
  qed
qed


lemma transmit_from_trace:
  "\<exists>new. trace (snd (transmit_from P i lds s)) = trace s @ new
     \<and> sorted_wrt effect_before new
     \<and> (\<forall>e \<in> set new. i \<le> fst e \<and> fst e < i + length (serialized new)
            \<and> effect_of_record P (lds ! (fst e - i)) (snd e))
     \<and> serialized new = take (length (serialized new)) lds
     \<and> (fst (transmit_from P i lds s) = None \<longrightarrow> serialized new = lds)"
proof (induction lds arbitrary: i s)
  case Nil
  show ?case
    by (rule exI[of _ "[]"]) simp
next
  case (Cons ld rest)
  obtain r ld' s' where step: "transmit_record P i ld s = (r, ld', s')"
    by (cases "transmit_record P i ld s") auto
  from transmit_record_block[OF step] obtain blk where
    tr: "trace s' = trace s @ (i, Serialize ld) # blk"
    and srt: "sorted_wrt effect_before ((i, Serialize ld) # blk)"
    and own: "\<forall>e \<in> set blk. fst e = i \<and> effect_of_record P ld (snd e)"
    and ser: "serialized blk = []"
    by blast
  let ?b = "(i, Serialize ld) # blk"
  have own': "\<forall>e \<in> set ?b. fst e = i \<and> effect_of_record P ld (snd e)"
    using own by simp
  have serb: "serialized ?b = [ld]" using ser by simp
  show ?case
  proof (cases r)
    case (Some exc)
    with step have res: "transmit_from P i (ld # rest) s = (Some exc, s')" by simp
    have f1: "trace (snd (transmit_from P i (ld # rest) s)) = trace s @ ?b"
      using res tr by simp
    have f2: "\<forall>e \<in> set ?b. i \<le> fst e \<and> fst e < i + length (serialized ?b)
            \<and> effect_of_record P ((ld # rest) ! (fst e - i)) (snd e)"
      using own' serb by auto
    have f3: "serialized ?b = take (length (serialized ?b)) (ld # rest)"
      using serb by simp
    have f4: "fst (transmit_from P i (ld # rest) s) = None \<longrightarrow> serialized ?b = ld # rest"
      using res by simp
    show ?thesis
      by (rule exI[of _ ?b]) (intro conjI f1 f2 f3 f4 srt)
  next
    case None
    with step have res: "transmit_from P i (ld # rest) s = transmit_from P (Suc i) rest s'"
      by simp
    from Cons.IH[of "Suc i" s'] obtain new' where
      ih: "trace (snd (transmit_from P (Suc i) rest s')) = trace s' @ new'
        \<and> sorted_wrt effect_before new'
        \<and> (\<forall>e \<in> set new'. Suc i \<le> fst e \<and> fst e < Suc i + length (serialized new')
            \<and> effect_of_record P (rest ! (fst e - Suc i)) (snd e))
        \<and> serialized new' = take (length (serialized new')) rest
        \<and> (fst (transmit_from P (Suc i) rest s') = None \<longrightarrow> serialized new' = rest)"
      by (rule exE)
    from ih have tr': "trace (snd (transmit_from P (Suc i) rest s')) = trace s' @ new'"
      by (rule conjunct1)
    from ih have srt': "sorted_wrt effect_before new'"
      by (elim conjE)
    from ih have own'': "\<forall>e \<in> set new'. Suc i \<le> fst e \<and> fst e < Suc i + length (serialized new')
            \<and> effect_of_record P (rest ! (fst e - Suc i)) (snd e)"
      by (elim conjE)
    from ih have ser': "serialized new' = take (length (serialized new')) rest"
      by (elim conjE)
    from ih have fin': "fst (transmit_from P (Suc i) rest s') = None \<longrightarrow> serialized new' = rest"
      by (elim conjE)
    let ?n = "?b @ new'"
    have sern: "serialized ?n = ld # serialized new'"
      unfolding serialized_append serb by simp
    have g1: "trace (snd (transmit_from P i (ld # rest) s)) = trace s @ ?n"
      using res tr tr' by simp
    have g2: "sorted_wrt effect_before ?n"
    proof -
      have "\<forall>x \<in> set ?b. \<forall>y \<in> set new'. effect_before x y"
        using own' own'' by (auto simp add: effect_before_def)
      with srt srt' show ?thesis by (simp only: sorted_wrt_append simp_thms)
    qed
    have g3: "\<forall>e \<in> set ?n. i \<le> fst e \<and> fst e < i + length (serialized ?n)
            \<and> effect_of_record P ((ld # rest) ! (fst e - i)) (snd e)"
    proof
      fix e assume "e \<in> set ?n"
      then consider "e \<in> set ?b" | "e \<in> set new'" by auto
      then show "i \<le> fst e \<and> fst e < i + length (serialized ?n)
            \<and> effect_of_record P ((ld # rest) ! (fst e - i)) (snd e)"
      proof cases
        case 1
        with own' have "fst e = i" "effect_of_record P ld (snd e)" by auto
        then show ?thesis using sern by simp
      next
        case 2
        with own'' have a: "Suc i \<le> fst e" "fst e < Suc i + length (serialized new')"
          "effect_of_record P (rest ! (fst e - Suc i)) (snd e)" by auto
        from a(1) have "fst e - i = Suc (fst e - Suc i)" by simp
        then have "(ld # rest) ! (fst e - i) = rest ! (fst e - Suc i)" by simp
        with a show ?thesis using sern by simp
      qed
    qed
    have g4: "serialized ?n = take (length (serialized ?n)) (ld # rest)"
      using sern ser' by simp
    have g5: "fst (transmit_from P i (ld # rest) s) = None \<longrightarrow> serialized ?n = ld # rest"
      using res fin' sern by simp
    show ?thesis
      by (rule exI[of _ ?n]) (intro conjI g1 g2 g3 g4 g5)
  qed
qed


section \<open>The audit rows through a run of \<open>transmit\<close>\<close>

lemma is_already_transmitted_model_append:
  "is_already_transmitted_model (rows @ [row]) e g None =
     (if enterprise_course_enrollment_id row = e \<and> error_message row = []
      then grade row = g
      else is_already_transmitted_model rows e g None)"
  by (cases "filter (\<lambda>row. enterprise_course_enrollment_id row = e \<and> error_message row = []) rows")
     (auto simp add: is_already_transmitted_model_def)

lemma transmit_record_audit:
  assumes "transmit_record P i ld s = (r, ld', s')"
  shows "audit s' = audit s
       \<or> (r = None \<and> course_completed ld
          \<and> \<not> is_already_transmitted P (audit s) (enterprise_course_enrollment_id ld) (grade ld) None
          \<and> (\<exists>code message. audit s' = audit s @ [recorded_as ld code message]))"
proof (cases "course_completed ld \<and>
    \<not> is_already_transmitted P (audit s) (enterprise_course_enrollment_id ld) (grade ld) None")
  case False
  with assms have "audit s' = audit s"
    by (auto simp add: transmit_record_def Let_def split: if_splits)
  then show ?thesis by simp
next
  case True
  let ?s1 = "s\<lparr>trace := trace s @ [(i, Serialize ld)]\<rparr>"
  obtain t s2 where t: "try_create_course_completion P i ld (serialize P ld) ?s1 = (t, s2)"
    by (cases "try_create_course_completion P i ld (serialize P ld) ?s1")
  have a2: "audit s2 = audit s"
    using try_create_course_completion_audit[OF t] by simp
  show ?thesis
  proof (cases t)
    case (Inl exc)
    with True t assms have "s' = s2" by (simp add: transmit_record_raised)
    with a2 show ?thesis by simp
  next
    case (Inr cb)
    obtain code body where cb: "cb = (code, body)" by (cases cb)
    from True t Inr cb assms have "r = None" and "s' = save i (recorded_as ld code body) s2"
      by (auto simp add: transmit_record_sent recorded_as_def)
    with a2 True show ?thesis by (auto simp add: save_def)
  qed
qed


lemma transmit_record_saved:
  assumes "transmit_record P i ld s = (None, ld', s')"
    and "course_completed ld"
    and "\<not> is_already_transmitted P (audit s) (enterprise_course_enrollment_id ld) (grade ld) None"
  shows "\<exists>code message. audit s' = audit s @ [recorded_as ld code message]"
proof -
  let ?s1 = "s\<lparr>trace := trace s @ [(i, Serialize ld)]\<rparr>"
  obtain t s2 where t: "try_create_course_completion P i ld (serialize P ld) ?s1 = (t, s2)"
    by (cases "try_create_course_completion P i ld (serialize P ld) ?s1")
  have a2: "audit s2 = audit s"
    using try_create_course_completion_audit[OF t] by simp
  show ?thesis
  proof (cases t)
    case (Inl exc)
    with assms t show ?thesis by (simp add: transmit_record_raised)
  next
    case (Inr cb)
    obtain code body where cb: "cb = (code, body)" by (cases cb)
    from assms t Inr cb have "s' = save i (recorded_as ld code body) s2"
      by (auto simp add: transmit_record_sent recorded_as_def)
    with a2 have "audit s' = audit s @ [recorded_as ld code body]"
      by (simp add: save_def)
    then show ?thesis by blast
  qed
qed

lemma transmit_record_audit_grows:
  assumes "transmit_record P i ld s = (r, ld', s')"
  shows "\<exists>blk. audit s' = audit s @ blk"
  using transmit_record_audit[OF assms] by auto

lemma transmit_from_audit_grows:
  "transmit_from P i lds s = (r, s1) \<Longrightarrow> \<exists>added. audit s1 = audit s @ added"
proof (induction lds arbitrary: i s)
  case Nil
  then show ?case by simp
next
  case (Cons ld rest)
  obtain r0 ld' s' where step: "transmit_record P i ld s = (r0, ld', s')"
    by (cases "transmit_record P i ld s") auto
  from transmit_record_audit_grows[OF step] obtain blk where blk: "audit s' = audit s @ blk"
    by blast
  show ?case
  proof (cases r0)
    case (Some exc)
    with step Cons.prems have "s1 = s'" by simp
    with blk show ?thesis by blast
  next
    case None
    with step Cons.prems have "transmit_from P (Suc i) rest s' = (r, s1)" by simp
    from Cons.IH[OF this] obtain added where "audit s1 = audit s' @ added" by blast
    with blk have "audit s1 = audit s @ (blk @ added)" by simp
    then show ?thesis by blast
  qed
qed

lemma transmit_record_keeps_sent:
  assumes step: "transmit_record P i y s = (r, y', s')"
    and sent: "is_already_transmitted_model (audit s)
                 (enterprise_course_enrollment_id x) (grade x) None"
    and same: "enterprise_course_enrollment_id y = enterprise_course_enrollment_id x
                 \<longrightarrow> grade y = grade x"
  shows "is_already_transmitted_model (audit s')
           (enterprise_course_enrollment_id x) (grade x) None"
  using transmit_record_audit[OF step]
proof
  assume "audit s' = audit s"
  with sent show ?thesis by simp
next
  assume "r = None \<and> course_completed y
          \<and> \<not> is_already_transmitted P (audit s) (enterprise_course_enrollment_id y) (grade y) None
          \<and> (\<exists>code message. audit s' = audit s @ [recorded_as y code message])"
  then obtain code message where "audit s' = audit s @ [recorded_as y code message]" by blast
  with sent same show ?thesis
    by (simp add: is_already_transmitted_model_append recorded_as_def)
qed

lemma transmit_from_keeps_sent:
  "transmit_from P i lds s = (r, s1) \<Longrightarrow>
   is_already_transmitted_model (audit s) (enterprise_course_enrollment_id x) (grade x) None \<Longrightarrow>
   \<forall>y \<in> set lds. enterprise_course_enrollment_id y = enterprise_course_enrollment_id x
                      \<longrightarrow> grade y = grade x \<Longrightarrow>
   is_already_transmitted_model (audit s1) (enterprise_course_enrollment_id x) (grade x) None"
proof (induction lds arbitrary: i s)
  case Nil
  then show ?case by simp
next
  case (Cons ld rest)
  obtain r0 ld' s' where step: "transmit_record P i ld s = (r0, ld', s')"
    by (cases "transmit_record P i ld s") auto
  have kept: "is_already_transmitted_model (audit s')
                (enterprise_course_enrollment_id x) (grade x) None"
    using transmit_record_keeps_sent[OF step Cons.prems(2)] Cons.prems(3) by simp
  show ?case
  proof (cases r0)
    case (Some exc)
    with step Cons.prems(1) have "s1 = s'" by simp
    with kept show ?thesis by simp
  next
    case None
    with step Cons.prems(1) have run: "transmit_from P (Suc i) rest s' = (r, s1)" by simp
    from Cons.IH[OF run kept] Cons.prems(3) show ?thesis by simp
  qed
qed


lemma transmit_from_marks_sent:
  assumes model: "is_already_transmitted P = is_already_transmitted_model"
  shows "transmit_from P i lds s = (None, s1) \<Longrightarrow>
   \<forall>row \<in> set (drop (length (audit s)) (audit s1)). error_message row = [] \<Longrightarrow>
   \<forall>a \<in> set lds. \<forall>b \<in> set lds.
      enterprise_course_enrollment_id a = enterprise_course_enrollment_id b
      \<longrightarrow> grade a = grade b \<Longrightarrow>
   \<forall>ld \<in> set lds. course_completed ld \<longrightarrow>
      is_already_transmitted_model (audit s1) (enterprise_course_enrollment_id ld) (grade ld) None"
proof (induction lds arbitrary: i s)
  case Nil
  then show ?case by simp
next
  case (Cons ld rest)
  obtain r0 ld' s' where step: "transmit_record P i ld s = (r0, ld', s')"
    by (cases "transmit_record P i ld s") auto
  from step Cons.prems(1) have r0: "r0 = None"
    by (cases r0) auto
  with step Cons.prems(1) have run: "transmit_from P (Suc i) rest s' = (None, s1)" by simp
  from transmit_record_audit_grows[OF step] obtain blk where blk: "audit s' = audit s @ blk"
    by blast
  from transmit_from_audit_grows[OF run] obtain added where added: "audit s1 = audit s' @ added"
    by blast
  from blk added have dr: "drop (length (audit s)) (audit s1) = blk @ added" by simp
  from blk added have dr': "drop (length (audit s')) (audit s1) = added" by simp
  have clean_all: "\<forall>row \<in> set (blk @ added). error_message row = []"
    using Cons.prems(2) unfolding dr .
  from clean_all have clean_blk: "\<forall>row \<in> set blk. error_message row = []"
    by simp
  from clean_all have clean_added: "\<forall>row \<in> set added. error_message row = []"
    by simp
  have tail: "\<forall>x \<in> set rest. course_completed x \<longrightarrow>
      is_already_transmitted_model (audit s1) (enterprise_course_enrollment_id x) (grade x) None"
  proof (rule Cons.IH[OF run])
    show "\<forall>row \<in> set (drop (length (audit s')) (audit s1)). error_message row = []"
      using clean_added unfolding dr' .
    show "\<forall>a \<in> set rest. \<forall>b \<in> set rest.
      enterprise_course_enrollment_id a = enterprise_course_enrollment_id b
      \<longrightarrow> grade a = grade b"
      using Cons.prems(3) by (meson list.set_intros(2))
  qed
  have head: "course_completed ld \<longrightarrow>
      is_already_transmitted_model (audit s1) (enterprise_course_enrollment_id ld) (grade ld) None"
  proof
    assume compl: "course_completed ld"
    have after: "is_already_transmitted_model (audit s')
                   (enterprise_course_enrollment_id ld) (grade ld) None"
    proof (cases "is_already_transmitted P (audit s) (enterprise_course_enrollment_id ld)
                    (grade ld) None")
      case True
      with compl step have "audit s' = audit s"
        by (auto simp add: transmit_record_already_sent)
      with True model show ?thesis by simp
    next
      case False
      from transmit_record_saved[OF step[unfolded r0] compl False]
      obtain code message where row: "audit s' = audit s @ [recorded_as ld code message]"
        by blast
      with blk have "blk = [recorded_as ld code message]" by simp
      with clean_blk have "error_message (recorded_as ld code message) = []" by simp
      with row show ?thesis
        by (simp add: is_already_transmitted_model_append recorded_as_def)
    qed
    show "is_already_transmitted_model (audit s1) (enterprise_course_enrollment_id ld)
            (grade ld) None"
    proof (rule transmit_from_keeps_sent[OF run after])
      show "\<forall>y \<in> set rest. enterprise_course_enrollment_id y = enterprise_course_enrollment_id ld
              \<longrightarrow> grade y = grade ld"
        using Cons.prems(3) by (meson list.set_intros)
    qed
  qed
  show ?case
  proof
    fix x assume "x \<in> set (ld # rest)"
    then consider "x = ld" | "x \<in> set rest" by auto
    then show "course_completed x \<longrightarrow>
      is_already_transmitted_model (audit s1) (enterprise_course_enrollment_id x) (grade x) None"
    proof cases
      case 1
      with head show ?thesis by (simp only:)
    next
      case 2
      with tail show ?thesis by (rule bspec)
    qed
  qed
qed



section \<open>The decorator \<open>refresh_token\<close>\<close>

lemma refresh_token_expired_connects:
  assumes "env_time P w = (t, w1)" and "t > expires_at self"
    and "env_jwt_builder P = Some mk" and "env_time P w1 = (now, w2)"
  shows "refresh_token P func self w =
           func (self\<lparr>client := Some (mk (user self)),
                       expires_at := now + expires_in self\<rparr>) w2"
  using assms by (simp add: refresh_token_def token_expired_def connect_def Let_def)

lemma refresh_token_expired_not_connected:
  assumes "env_time P w = (t, w1)" and "t > expires_at self" and "env_jwt_builder P = None"
  shows "refresh_token P func self w = (Inl NotConnectedToOpenEdX, self, w1)"
  using assms by (simp add: refresh_token_def token_expired_def connect_def)

lemma refresh_token_not_expired:
  assumes "env_time P w = (t, w1)" and "\<not> t > expires_at self"
  shows "refresh_token P func self w = func self w1"
  using assms by (simp add: refresh_token_def token_expired_def)

text \<open>
  Claim C4, as stated, fails. Outside an Open edX environment \<open>connect\<close> raises
  \<open>NotConnectedToOpenEdX\<close>: the token stays expired and the wrapped method is not
  called. With a negative \<open>expires_in\<close> the token is expired as soon as \<open>connect\<close>
  has returned. And at a clock reading of 0 a freshly constructed client does not count
  as expired.
\<close>

theorem refresh_token_counterexample:
  "refresh_token (example_platform 1700000000 None course_get_answers refresh_post_alternating)
      (get_course_details_body
         (example_platform 1700000000 None course_get_answers refresh_post_alternating)
         ''course-v1:A+B+C'')
      (new_jwt_client ''worker'' 3600) 0
     = (Inl NotConnectedToOpenEdX, new_jwt_client ''worker'' 3600, 1)
   \<and> fst (token_expired
           (example_platform 1700000000 None course_get_answers refresh_post_alternating)
           (new_jwt_client ''worker'' 3600) 1)
   \<and> fst (snd (connect
           (example_platform 1700000000 (Some example_jwt_builder) course_get_answers
              refresh_post_alternating)
           (new_jwt_client ''worker'' (- 1)) 0))
       = \<lparr>user = ''worker'', expires_in = - 1, expires_at = 1699999999,
          client = Some ''jwt-for-worker''\<rparr>
   \<and> fst (token_expired
           (example_platform 1700000000 (Some example_jwt_builder) course_get_answers
              refresh_post_alternating)
           \<lparr>user = ''worker'', expires_in = - 1, expires_at = 1699999999,
            client = Some ''jwt-for-worker''\<rparr> 0)
   \<and> \<not> fst (token_expired
           (example_platform 0 (Some example_jwt_builder) course_get_answers
              refresh_post_alternating)
           (new_jwt_client ''worker'' 3600) 0)"
  by (simp add: refresh_token_def token_expired_def connect_def example_platform_def
      new_jwt_client_def example_jwt_builder_def Let_def)

text \<open>
  Claim C4, amended. For a method wrapped with \<open>refresh_token\<close>: if
  \<open>token_expired()\<close> holds at call time and the JWT builder is available, \<open>connect()\<close>
  runs before the wrapped method, which is called on the client as \<open>connect\<close> left it,
  with a new \<open>client\<close> and \<open>expires_at\<close> equal to \<open>now + expires_in\<close>; that token is
  unexpired at the reading \<open>now\<close> when \<open>expires_in\<close> is not negative. If the JWT
  builder is not available, \<open>connect()\<close> raises \<open>NotConnectedToOpenEdX\<close>, the wrapped
  method is not called and the client is unchanged. If the token is unexpired, there is
  no reconnection and the wrapped method is called on the existing client. A freshly
  constructed client is expired at every clock reading greater than 0.
\<close>

theorem refresh_token_reconnects_on_expiry:
  "(\<forall>t w1 mk now w2.
      env_time P w = (t, w1) \<and> t > expires_at self
      \<and> env_jwt_builder P = Some mk \<and> env_time P w1 = (now, w2)
      \<longrightarrow> refresh_token P func self w
            = func (self\<lparr>client := Some (mk (user self)),
                        expires_at := now + expires_in self\<rparr>) w2
          \<and> (0 \<le> expires_in self
               \<longrightarrow> (\<forall>w3 w4. env_time P w3 = (now, w4)
                     \<longrightarrow> \<not> fst (token_expired P
                             (self\<lparr>client := Some (mk (user self)),
                                   expires_at := now + expires_in self\<rparr>) w3))))
   \<and> (\<forall>t w1.
      env_time P w = (t, w1) \<and> t > expires_at self \<and> env_jwt_builder P = None
      \<longrightarrow> refresh_token P func self w = (Inl NotConnectedToOpenEdX, self, w1))
   \<and> (\<forall>t w1.
      env_time P w = (t, w1) \<and> \<not> t > expires_at self
      \<longrightarrow> refresh_token P func self w = func self w1)
   \<and> (\<forall>t w1 u lifetime.
      env_time P w = (t, w1) \<and> 0 < t
      \<longrightarrow> fst (token_expired P (new_jwt_client u lifetime) w))"
  by (auto simp add: refresh_token_expired_connects refresh_token_expired_not_connected
      refresh_token_not_expired token_expired_def new_jwt_client_def)


theorem refresh_token_reconnects_on_expiry_witness:
  "env_time (example_platform 1700000000 (Some example_jwt_builder) course_get_answers
        refresh_post_alternating) 0 = (1700000000, 1)
   \<and> 1700000000 > expires_at (new_jwt_client ''worker'' 3600)
   \<and> env_jwt_builder (example_platform 1700000000 (Some example_jwt_builder) course_get_answers
        refresh_post_alternating) = Some example_jwt_builder
   \<and> env_time (example_platform 1700000000 (Some example_jwt_builder) course_get_answers
        refresh_post_alternating) 1 = (1700000001, 2)
   \<and> refresh_token
        (example_platform 1700000000 (Some example_jwt_builder) course_get_answers
           refresh_post_alternating)
        (get_course_details_body
           (example_platform 1700000000 (Some example_jwt_builder) course_get_answers
              refresh_post_alternating) ''course-v1:A+B+C'')
        (new_jwt_client ''worker'' 3600) 0
      = get_course_details_body
           (example_platform 1700000000 (Some example_jwt_builder) course_get_answers
              refresh_post_alternating) ''course-v1:A+B+C''
           ((new_jwt_client ''worker'' 3600)
              \<lparr>client := Some (example_jwt_builder (user (new_jwt_client ''worker'' 3600))),
               expires_at := 1700000001 + expires_in (new_jwt_client ''worker'' 3600)\<rparr>) 2
   \<and> get_course_details_body
           (example_platform 1700000000 (Some example_jwt_builder) course_get_answers
              refresh_post_alternating) ''course-v1:A+B+C''
           ((new_jwt_client ''worker'' 3600)
              \<lparr>client := Some (example_jwt_builder (user (new_jwt_client ''worker'' 3600))),
               expires_at := 1700000001 + expires_in (new_jwt_client ''worker'' 3600)\<rparr>) 2
      = (Inr [(''course_id'', Text ''course-v1:A+B+C''), (''course_modes'', Modes example_modes)],
         \<lparr>user = ''worker'', expires_in = 3600, expires_at = 1700003601,
          client = Some ''jwt-for-worker''\<rparr>, 3)"
proof -
  let ?P = "example_platform 1700000000 (Some example_jwt_builder) course_get_answers
        refresh_post_alternating"
  let ?c = "new_jwt_client ''worker'' 3600"
  let ?f = "get_course_details_body ?P ''course-v1:A+B+C''"
  have pre: "env_time ?P 0 = (1700000000, 1) \<and> 1700000000 > expires_at ?c
      \<and> env_jwt_builder ?P = Some example_jwt_builder \<and> env_time ?P 1 = (1700000001, 2)"
    by (simp add: example_platform_def new_jwt_client_def)
  note step = refresh_token_reconnects_on_expiry[of ?P 0 ?c ?f, THEN conjunct1, rule_format,
      of 1700000000 1 example_jwt_builder 1700000001 2, OF pre]
  from step have call: "refresh_token ?P ?f ?c 0
      = ?f (?c\<lparr>client := Some (example_jwt_builder (user ?c)),
               expires_at := 1700000001 + expires_in ?c\<rparr>) 2"
    by (rule conjunct1)
  have result: "?f (?c\<lparr>client := Some (example_jwt_builder (user ?c)),
               expires_at := 1700000001 + expires_in ?c\<rparr>) 2
      = (Inr [(''course_id'', Text ''course-v1:A+B+C''), (''course_modes'', Modes example_modes)],
         \<lparr>user = ''worker'', expires_in = 3600, expires_at = 1700003601,
          client = Some ''jwt-for-worker''\<rparr>, 3)"
    by (simp add: get_course_details_body_def example_platform_def new_jwt_client_def
        example_jwt_builder_def course_get_answers_def)
  from pre call result show ?thesis by (intro conjI) (elim conjE, assumption)+
qed


section \<open>Transport errors in the LMS clients\<close>

lemma refresh_token_calls_connected:
  assumes builder: "env_jwt_builder P = Some mk"
    and live: "client self \<noteq> None \<or> expires_at self < fst (env_time P w)"
  shows "\<exists>self' w'. refresh_token P func self w = func self' w' \<and> client self' \<noteq> None"
proof -
  obtain t w1 where t: "env_time P w = (t, w1)" by (cases "env_time P w")
  show ?thesis
  proof (cases "t > expires_at self")
    case True
    obtain now w2 where n: "env_time P w1 = (now, w2)" by (cases "env_time P w1")
    let ?c = "self\<lparr>client := Some (mk (user self)), expires_at := now + expires_in self\<rparr>"
    have "refresh_token P func self w = func ?c w2"
      using t True builder n by (rule refresh_token_expired_connects)
    moreover have "client ?c \<noteq> None" by simp
    ultimately show ?thesis by (intro exI[of _ ?c] exI[of _ w2] conjI)
  next
    case False
    have "refresh_token P func self w = func self w1"
      using t False by (rule refresh_token_not_expired)
    moreover from live t False have "client self \<noteq> None" by simp
    ultimately show ?thesis by (intro exI[of _ self] exI[of _ w1] conjI)
  qed
qed







section \<open>\<open>get_course_modes\<close> on the fetched course details\<close>

lemma get_course_details_body_answers:
  assumes "client self = Some jwt"
    and "env_enrollment_course_get P jwt cid w = (Inr details, w')"
  shows "get_course_details_body P cid self w = (Inr details, self, w')"
  using assms by (simp add: get_course_details_body_def)

lemma get_course_details_answers:
  assumes builder: "env_jwt_builder P = Some mk"
    and live: "client self \<noteq> None \<or> expires_at self < fst (env_time P w)"
    and fetched: "\<forall>jwt w0. \<exists>w'. env_enrollment_course_get P jwt cid w0 = (Inr details, w')"
  shows "\<exists>self' w'. get_course_details P cid self w = (Inr details, self', w')"
proof -
  from refresh_token_calls_connected[OF builder live, of "get_course_details_body P cid"]
  obtain c1 w1 where call: "get_course_details P cid self w = get_course_details_body P cid c1 w1"
    and conn: "client c1 \<noteq> None"
    by (auto simp add: get_course_details_def)
  from conn obtain jwt where jwt: "client c1 = Some jwt" by auto
  from fetched obtain w2 where req: "env_enrollment_course_get P jwt cid w1 = (Inr details, w2)"
    by blast
  from get_course_details_body_answers[OF jwt req] call
  have "get_course_details P cid self w = (Inr details, c1, w2)" by simp
  then show ?thesis by (intro exI[of _ c1] exI[of _ w2])
qed

lemma get_course_modes_body_selects:
  assumes "get_course_details P cid self w = (Inr details, self', w')"
    and "map_of details ''course_modes'' = Some (Modes modes)"
  shows "get_course_modes_body P sorting_slugs excluded cid self w
           = (select_course_modes sorting_slugs excluded modes, self', w')"
  using assms by (simp add: get_course_modes_body_def course_modes_of_def)

lemma get_course_modes_selects:
  assumes builder: "env_jwt_builder P = Some mk"
    and live: "client self \<noteq> None \<or> expires_at self < fst (env_time P w)"
    and fetched: "\<forall>jwt w0. \<exists>w'. env_enrollment_course_get P jwt cid w0 = (Inr details, w')"
    and modes: "map_of details ''course_modes'' = Some (Modes modes)"
  shows "fst (get_course_modes P sorting_slugs excluded cid self w)
           = select_course_modes sorting_slugs excluded modes"
proof -
  from refresh_token_calls_connected[OF builder live,
      of "get_course_modes_body P sorting_slugs excluded cid"]
  obtain c1 w1 where call: "get_course_modes P sorting_slugs excluded cid self w
        = get_course_modes_body P sorting_slugs excluded cid c1 w1"
    and conn: "client c1 \<noteq> None"
    by (auto simp add: get_course_modes_def)
  from conn have live1: "client c1 \<noteq> None \<or> expires_at c1 < fst (env_time P w1)" by simp
  from get_course_details_answers[OF builder live1 fetched]
  obtain c2 w2 where det: "get_course_details P cid c1 w1 = (Inr details, c2, w2)" by blast
  from get_course_modes_body_selects[OF det modes, of sorting_slugs excluded] call
  show ?thesis by simp
qed

text \<open>
  Claim C8. \<open>EnrollmentApiClient.get_course_modes\<close>, called on a client that holds a
  connection or whose token has expired and can be renewed, for a course whose details
  the Enrollment API returns with the list \<open>modes\<close> under \<open>course_modes\<close> (each mode
  with its \<open>slug\<close>), returns a permutation of exactly the modes whose slug is not
  excluded; modes whose slug is in the sort order come before modes whose slug is not,
  a mode with an earlier position in the sort order comes before one with a later
  position, and modes of equal weight keep the order they had in the input.
\<close>

theorem get_course_modes_filters_and_sorts:
  assumes builder: "env_jwt_builder P = Some mk"
    and live: "client self \<noteq> None \<or> expires_at self < fst (env_time P w)"
    and fetched: "\<forall>jwt w0. \<exists>w'. env_enrollment_course_get P jwt cid w0 = (Inr details, w')"
    and modes: "map_of details ''course_modes'' = Some (Modes modes)"
    and slugs: "\<forall>m \<in> set modes. has_slug m"
  shows "\<exists>res. fst (get_course_modes P order excluded cid self w) = Inr res
     \<and> mset res = mset (filter (\<lambda>m. \<not> is_excluded excluded m) modes)
     \<and> sorted_wrt (\<lambda>a b. in_sort_order order b \<longrightarrow>
           in_sort_order order a \<and> sort_position order a \<le> sort_position order b) res
     \<and> (\<forall>k. filter (\<lambda>m. slug_weight order m = Inr k) res =
             filter (\<lambda>m. slug_weight order m = Inr k)
               (filter (\<lambda>m. \<not> is_excluded excluded m) modes))"
  unfolding get_course_modes_selects[OF builder live fetched modes]
  using slugs by (rule select_course_modes_filters_and_sorts)

theorem get_course_modes_filters_and_sorts_witness:
  "env_jwt_builder (example_platform 1700000000 (Some example_jwt_builder) course_get_answers
        refresh_post_alternating) = Some example_jwt_builder
   \<and> expires_at (new_jwt_client ''worker'' 3600)
        < fst (env_time (example_platform 1700000000 (Some example_jwt_builder)
                 course_get_answers refresh_post_alternating) 0)
   \<and> (\<forall>jwt w0. \<exists>w'.
         env_enrollment_course_get (example_platform 1700000000 (Some example_jwt_builder)
                 course_get_answers refresh_post_alternating) jwt ''course-v1:A+B+C'' w0
           = (Inr [(''course_id'', Text ''course-v1:A+B+C''), (''course_modes'', Modes example_modes)],
              w'))
   \<and> map_of [(''course_id'', Text ''course-v1:A+B+C''), (''course_modes'', Modes example_modes)]
        ''course_modes'' = Some (Modes example_modes)
   \<and> list_all has_slug example_modes
   \<and> (\<exists>res. fst (get_course_modes (example_platform 1700000000 (Some example_jwt_builder)
                 course_get_answers refresh_post_alternating)
             [''verified'', ''professional'', ''audit''] [''credit''] ''course-v1:A+B+C''
             (new_jwt_client ''worker'' 3600) 0) = Inr res
     \<and> mset res = mset (filter (\<lambda>m. \<not> is_excluded [''credit''] m) example_modes)
     \<and> sorted_wrt (\<lambda>a b. in_sort_order [''verified'', ''professional'', ''audit''] b \<longrightarrow>
           in_sort_order [''verified'', ''professional'', ''audit''] a
           \<and> sort_position [''verified'', ''professional'', ''audit''] a
               \<le> sort_position [''verified'', ''professional'', ''audit''] b) res
     \<and> (\<forall>k. filter (\<lambda>m. slug_weight [''verified'', ''professional'', ''audit''] m = Inr k) res =
             filter (\<lambda>m. slug_weight [''verified'', ''professional'', ''audit''] m = Inr k)
               (filter (\<lambda>m. \<not> is_excluded [''credit''] m) example_modes)))
   \<and> fst (get_course_modes (example_platform 1700000000 (Some example_jwt_builder)
                 course_get_answers refresh_post_alternating)
             [''verified'', ''professional'', ''audit''] [''credit''] ''course-v1:A+B+C''
             (new_jwt_client ''worker'' 3600) 0)
       = Inr [[(''slug'', ''verified'')],
             [(''slug'', ''audit''), (''name'', ''Audit'')],
             [(''slug'', ''audit''), (''name'', ''Audit again'')],
             [(''name'', ''Honor''), (''slug'', ''honor'')],
             [(''slug'', ''no-id-professional'')]]"
proof -
  let ?P = "example_platform 1700000000 (Some example_jwt_builder) course_get_answers
        refresh_post_alternating"
  let ?c = "new_jwt_client ''worker'' 3600"
  let ?d = "[(''course_id'', Text ''course-v1:A+B+C''), (''course_modes'', Modes example_modes)]"
  have b: "env_jwt_builder ?P = Some example_jwt_builder"
    by (simp add: example_platform_def)
  have e: "expires_at ?c < fst (env_time ?P 0)"
    by (simp add: example_platform_def new_jwt_client_def)
  then have l: "client ?c \<noteq> None \<or> expires_at ?c < fst (env_time ?P 0)"
    by (rule disjI2)
  have f: "\<forall>jwt w0. \<exists>w'. env_enrollment_course_get ?P jwt ''course-v1:A+B+C'' w0 = (Inr ?d, w')"
    by (simp add: example_platform_def course_get_answers_def)
  have m: "map_of ?d ''course_modes'' = Some (Modes example_modes)"
    by simp
  have h: "\<forall>m \<in> set example_modes. has_slug m"
    by (simp add: example_modes_def has_slug_def)
  have h': "list_all has_slug example_modes"
    using h by (simp only: list_all_iff)
  note r = get_course_modes_filters_and_sorts[OF b l f m h,
      of "[''verified'', ''professional'', ''audit'']" "[''credit'']"]
  have v: "fst (get_course_modes ?P [''verified'', ''professional'', ''audit''] [''credit'']
             ''course-v1:A+B+C'' ?c 0)
       = Inr [[(''slug'', ''verified'')],
             [(''slug'', ''audit''), (''name'', ''Audit'')],
             [(''slug'', ''audit''), (''name'', ''Audit again'')],
             [(''name'', ''Honor''), (''slug'', ''honor'')],
             [(''slug'', ''no-id-professional'')]]"
    by (simp only: get_course_modes_selects[OF b l f m] example_modes_selected)
  from b e f m h' r v show ?thesis by (intro conjI)
qed


section \<open>The order of the effects of \<open>transmit\<close>\<close>

lemma saved_append: "saved (xs @ ys) = saved xs @ saved ys"
  by (induction xs rule: saved.induct) simp_all

lemma completion_calls_append:
  "completion_calls P (xs @ ys) w = completion_calls P ys (completion_calls P xs w)"
  by (induction P xs w rule: completion_calls.induct) simp_all

lemma transmit_record_skipped:
  assumes "\<not> course_completed ld
      \<or> is_already_transmitted P (audit s) (enterprise_course_enrollment_id ld) (grade ld) None"
  shows "\<exists>s'. transmit_record P i ld s = (None, ld, s')
      \<and> trace s' = trace s @ [(i, Serialize ld)]
      \<and> partner s' = partner s \<and> audit s' = audit s"
proof (cases "course_completed ld")
  case False
  then show ?thesis by (simp add: transmit_record_in_progress)
next
  case True
  with assms show ?thesis by (simp add: transmit_record_already_sent)
qed

lemma transmit_record_response:
  assumes "course_completed ld"
    and "\<not> is_already_transmitted P (audit s) (enterprise_course_enrollment_id ld) (grade ld) None"
    and u: "getattr ld (remote_user_id P) = Inr u"
    and "create_course_completion P u (serialize P ld) (partner s) = (Inr (code, body), w')"
  shows "\<exists>ld' s'. transmit_record P i ld s = (None, ld', s')
      \<and> trace s' = trace s @ [(i, Serialize ld), (i, Post u (serialize P ld)), (i, Save ld')]
      \<and> partner s' = w' \<and> audit s' = audit s @ [ld']"
proof (cases "400 \<le> code")
  case True
  with assms show ?thesis
    by (simp add: transmit_record_sent try_create_course_completion_rejected[OF u] save_def)
next
  case False
  then have "code < 400" by simp
  with assms show ?thesis
    by (simp add: transmit_record_sent try_create_course_completion_accepted[OF u] save_def)
qed

lemma transmit_record_client_error:
  assumes "course_completed ld"
    and "\<not> is_already_transmitted P (audit s) (enterprise_course_enrollment_id ld) (grade ld) None"
    and u: "getattr ld (remote_user_id P) = Inr u"
    and "create_course_completion P u (serialize P ld) (partner s)
           = (Inl (ClientError message code), w')"
  shows "\<exists>ld' s'. transmit_record P i ld s = (None, ld', s')
      \<and> trace s' = trace s @ [(i, Serialize ld), (i, Post u (serialize P ld)), (i, Save ld')]
      \<and> partner s' = w' \<and> audit s' = audit s @ [ld']"
  using assms
  by (simp add: transmit_record_sent try_create_course_completion_client_error[OF u] save_def)

lemma transmit_record_no_remote_user:
  assumes "course_completed ld"
    and "\<not> is_already_transmitted P (audit s) (enterprise_course_enrollment_id ld) (grade ld) None"
    and "getattr ld (remote_user_id P) = Inl exc"
  shows "\<exists>s'. transmit_record P i ld s = (Some exc, ld, s')
      \<and> trace s' = trace s @ [(i, Serialize ld)]
      \<and> partner s' = partner s \<and> audit s' = audit s"
  using assms
  by (simp add: transmit_record_def try_create_course_completion_def Let_def)

lemma transmit_record_client_raised:
  assumes "course_completed ld"
    and "\<not> is_already_transmitted P (audit s) (enterprise_course_enrollment_id ld) (grade ld) None"
    and u: "getattr ld (remote_user_id P) = Inr u"
    and "create_course_completion P u (serialize P ld) (partner s) = (Inl exc, w')"
    and "\<forall>message code. exc \<noteq> ClientError message code"
  shows "\<exists>s'. transmit_record P i ld s = (Some exc, ld, s')
      \<and> trace s' = trace s @ [(i, Serialize ld), (i, Post u (serialize P ld))]
      \<and> partner s' = w' \<and> audit s' = audit s"
  using assms
  by (simp add: transmit_record_raised try_create_course_completion_other[OF u])

lemma transmit_record_effects:
  "\<exists>blk. trace (snd (snd (transmit_record P i ld s))) = trace s @ blk
      \<and> audit (snd (snd (transmit_record P i ld s))) = audit s @ saved blk
      \<and> partner (snd (snd (transmit_record P i ld s))) = completion_calls P blk (partner s)"
proof (cases "\<not> course_completed ld
      \<or> is_already_transmitted P (audit s) (enterprise_course_enrollment_id ld) (grade ld) None")
  case True
  from transmit_record_skipped[OF True, of i] obtain s' where
    "transmit_record P i ld s = (None, ld, s')" "trace s' = trace s @ [(i, Serialize ld)]"
    "partner s' = partner s" "audit s' = audit s" by blast
  then show ?thesis
    by (intro exI[of _ "[(i, Serialize ld)]"]) simp
next
  case False
  then have c: "course_completed ld"
    and n: "\<not> is_already_transmitted P (audit s) (enterprise_course_enrollment_id ld) (grade ld) None"
    by simp_all
  show ?thesis
  proof (cases "getattr ld (remote_user_id P)")
    case (Inl exc)
    from transmit_record_no_remote_user[OF c n Inl, of i] obtain s' where
      "transmit_record P i ld s = (Some exc, ld, s')" "trace s' = trace s @ [(i, Serialize ld)]"
      "partner s' = partner s" "audit s' = audit s" by blast
    then show ?thesis
      by (intro exI[of _ "[(i, Serialize ld)]"]) simp
  next
    case (Inr u)
    obtain outcome w' where call:
      "create_course_completion P u (serialize P ld) (partner s) = (outcome, w')"
      by (cases "create_course_completion P u (serialize P ld) (partner s)")
    have w': "snd (create_course_completion P u (serialize P ld) (partner s)) = w'"
      by (simp add: call)
    show ?thesis
    proof (cases outcome)
      case (Inr cb)
      obtain code body where cb: "cb = (code, body)" by (cases cb)
      from call Inr cb have call': "create_course_completion P u (serialize P ld) (partner s)
          = (Inr (code, body), w')" by simp
      from transmit_record_response[OF c n \<open>getattr ld (remote_user_id P) = Inr u\<close> call', of i]
      obtain ld' s' where
        "transmit_record P i ld s = (None, ld', s')"
        "trace s' = trace s @ [(i, Serialize ld), (i, Post u (serialize P ld)), (i, Save ld')]"
        "partner s' = w'" "audit s' = audit s @ [ld']" by blast
      then show ?thesis
        by (intro exI[of _ "[(i, Serialize ld), (i, Post u (serialize P ld)), (i, Save ld')]"])
          (simp add: w')
    next
      case (Inl exc)
      show ?thesis
      proof (cases "\<exists>message code. exc = ClientError message code")
        case True
        then obtain message code where exc: "exc = ClientError message code" by blast
        from call Inl exc have call': "create_course_completion P u (serialize P ld) (partner s)
          = (Inl (ClientError message code), w')" by simp
        from transmit_record_client_error[OF c n \<open>getattr ld (remote_user_id P) = Inr u\<close> call', of i]
        obtain ld' s' where
          "transmit_record P i ld s = (None, ld', s')"
          "trace s' = trace s @ [(i, Serialize ld), (i, Post u (serialize P ld)), (i, Save ld')]"
          "partner s' = w'" "audit s' = audit s @ [ld']" by blast
        then show ?thesis
          by (intro exI[of _ "[(i, Serialize ld), (i, Post u (serialize P ld)), (i, Save ld')]"])
            (simp add: w')
      next
        case False
        then have other: "\<forall>message code. exc \<noteq> ClientError message code" by simp
        from call Inl have call': "create_course_completion P u (serialize P ld) (partner s)
          = (Inl exc, w')" by simp
        from transmit_record_client_raised[OF c n \<open>getattr ld (remote_user_id P) = Inr u\<close> call' other, of i]
        obtain s' where
          "transmit_record P i ld s = (Some exc, ld, s')"
          "trace s' = trace s @ [(i, Serialize ld), (i, Post u (serialize P ld))]"
          "partner s' = w'" "audit s' = audit s" by blast
        then show ?thesis
          by (intro exI[of _ "[(i, Serialize ld), (i, Post u (serialize P ld))]"])
            (simp add: w')
      qed
    qed
  qed
qed

lemma transmit_from_effects:
  "\<exists>new. trace (snd (transmit_from P i lds s)) = trace s @ new
     \<and> audit (snd (transmit_from P i lds s)) = audit s @ saved new
     \<and> partner (snd (transmit_from P i lds s)) = completion_calls P new (partner s)"
proof (induction lds arbitrary: i s)
  case Nil
  show ?case by (rule exI[of _ "[]"]) simp
next
  case (Cons ld rest)
  obtain r ld' s' where step: "transmit_record P i ld s = (r, ld', s')"
    by (cases "transmit_record P i ld s") auto
  from transmit_record_effects[of P i ld s] step obtain blk where
    b1: "trace s' = trace s @ blk"
    and b2: "audit s' = audit s @ saved blk"
    and b3: "partner s' = completion_calls P blk (partner s)"
    by auto
  show ?case
  proof (cases r)
    case (Some exc)
    with step have res: "transmit_from P i (ld # rest) s = (Some exc, s')" by simp
    have f1: "trace (snd (transmit_from P i (ld # rest) s)) = trace s @ blk"
      by (simp only: res snd_conv b1)
    have f2: "audit (snd (transmit_from P i (ld # rest) s)) = audit s @ saved blk"
      by (simp only: res snd_conv b2)
    have f3: "partner (snd (transmit_from P i (ld # rest) s)) = completion_calls P blk (partner s)"
      by (simp only: res snd_conv b3)
    show ?thesis
      by (rule exI[of _ blk]) (intro conjI f1 f2 f3)
  next
    case None
    with step have res: "transmit_from P i (ld # rest) s = transmit_from P (Suc i) rest s'"
      by simp
    from Cons.IH[of "Suc i" s'] obtain new' where
      ih: "trace (snd (transmit_from P (Suc i) rest s')) = trace s' @ new'
        \<and> audit (snd (transmit_from P (Suc i) rest s')) = audit s' @ saved new'
        \<and> partner (snd (transmit_from P (Suc i) rest s')) = completion_calls P new' (partner s')"
      by (rule exE)
    from ih have i1: "trace (snd (transmit_from P (Suc i) rest s')) = trace s' @ new'"
      by (rule conjunct1)
    from ih have i2: "audit (snd (transmit_from P (Suc i) rest s')) = audit s' @ saved new'"
      by (elim conjE)
    from ih have i3: "partner (snd (transmit_from P (Suc i) rest s'))
        = completion_calls P new' (partner s')"
      by (elim conjE)
    have g1: "trace (snd (transmit_from P i (ld # rest) s)) = trace s @ (blk @ new')"
      by (simp only: res i1 b1 append_assoc)
    have g2: "audit (snd (transmit_from P i (ld # rest) s)) = audit s @ saved (blk @ new')"
      by (simp only: res i2 b2 saved_append append_assoc)
    have g3: "partner (snd (transmit_from P i (ld # rest) s))
        = completion_calls P (blk @ new') (partner s)"
      by (simp only: res i3 b3 completion_calls_append)
    show ?thesis
      by (rule exI[of _ "blk @ new'"]) (intro conjI g1 g2 g3)
  qed
qed

lemma transmit_run:
  "\<exists>new. trace (snd (transmit P exported s)) = trace s @ new
      \<and> sorted_wrt effect_before new
      \<and> (\<forall>e \<in> set new. fst e < length (serialized new)
             \<and> effect_of_record P (exported ! fst e) (snd e))
      \<and> serialized new = take (length (serialized new)) exported
      \<and> (fst (transmit P exported s) = None \<longrightarrow> serialized new = exported)
      \<and> audit (snd (transmit P exported s)) = audit s @ saved new
      \<and> partner (snd (transmit P exported s)) = completion_calls P new (partner s)"
proof -
  from transmit_from_trace[of P 0 exported s] obtain new where
    t: "trace (snd (transmit_from P 0 exported s)) = trace s @ new
     \<and> sorted_wrt effect_before new
     \<and> (\<forall>e \<in> set new. 0 \<le> fst e \<and> fst e < 0 + length (serialized new)
            \<and> effect_of_record P (exported ! (fst e - 0)) (snd e))
     \<and> serialized new = take (length (serialized new)) exported
     \<and> (fst (transmit_from P 0 exported s) = None \<longrightarrow> serialized new = exported)"
    by (rule exE)
  from transmit_from_effects[of P 0 exported s] obtain new2 where
    e: "trace (snd (transmit_from P 0 exported s)) = trace s @ new2
     \<and> audit (snd (transmit_from P 0 exported s)) = audit s @ saved new2
     \<and> partner (snd (transmit_from P 0 exported s)) = completion_calls P new2 (partner s)"
    by (rule exE)
  from t have t1: "trace (snd (transmit_from P 0 exported s)) = trace s @ new"
    by (rule conjunct1)
  from e have e1: "trace (snd (transmit_from P 0 exported s)) = trace s @ new2"
    by (rule conjunct1)
  from t1 e1 have same: "new2 = new" by simp
  from t have t2: "sorted_wrt effect_before new" by (elim conjE)
  from t have "\<forall>e \<in> set new. 0 \<le> fst e \<and> fst e < 0 + length (serialized new)
            \<and> effect_of_record P (exported ! (fst e - 0)) (snd e)" by (elim conjE)
  then have t3: "\<forall>e \<in> set new. fst e < length (serialized new)
             \<and> effect_of_record P (exported ! fst e) (snd e)" by simp
  from t have t4: "serialized new = take (length (serialized new)) exported" by (elim conjE)
  from t have t5: "fst (transmit_from P 0 exported s) = None \<longrightarrow> serialized new = exported"
    by (elim conjE)
  from e have e2: "audit (snd (transmit_from P 0 exported s)) = audit s @ saved new"
    unfolding same by (elim conjE)
  from e have e3: "partner (snd (transmit_from P 0 exported s)) = completion_calls P new (partner s)"
    unfolding same by (elim conjE)
  show ?thesis
    unfolding transmit_def
    by (rule exI[of _ new]) (intro conjI t1 t2 t3 t4 t5 e2 e3)
qed


text \<open>
  Claim C6, as stated, fails: not every record yielded by the exporter is posted and
  saved after it is serialised. In the four runs below the record is serialised and
  then (1) its course is not completed: no call, nothing saved; (2) it is reported as
  already sent: no call, nothing saved; (3) the client raises \<open>Timeout\<close>: the call is
  made, nothing is saved, the exception leaves the loop; (4) the record has no remote
  user id: no call, nothing saved, the exception leaves the loop.
\<close>

theorem serialize_post_save_counterexample:
  "transmit (example_channel accepting_partner)
      [example_record 7 ''course-v1:A+B+C'' False ''In Progress''] initial_state
     = (None,
        \<lparr>audit = [], partner = 0,
         trace = [(0, Serialize (example_record 7 ''course-v1:A+B+C'' False ''In Progress''))],
         logs = [Info ''Skipping in-progress enterprise enrollment'' 7]\<rparr>)
   \<and> transmit (example_channel accepting_partner)
      [example_record 7 ''course-v1:A+B+C'' True ''Pass''] state_with_sent_record
     = (None,
        \<lparr>audit = [recorded_as (example_record 7 ''course-v1:A+B+C'' True ''Pass'') 200 ''{}''],
         partner = Suc 0,
         trace = [(0, Serialize (example_record 7 ''course-v1:A+B+C'' True ''Pass''))],
         logs = [Info ''Skipping previously sent enterprise enrollment'' 7]\<rparr>)
   \<and> transmit (example_channel timeout_partner)
      [example_record 7 ''course-v1:A+B+C'' True ''Pass''] initial_state
     = (Some Timeout,
        \<lparr>audit = [], partner = Suc 0,
         trace = [(0, Serialize (example_record 7 ''course-v1:A+B+C'' True ''Pass'')),
                  (0, Post ''learner-1'' ''course-v1:A+B+C'')],
         logs = [Exception_logged ''create_assessment_reporting failed with Exception'' 7]\<rparr>)
   \<and> transmit (example_channel accepting_partner)
      [(example_record 7 ''course-v1:A+B+C'' True ''Pass'')\<lparr>attributes := []\<rparr>] initial_state
     = (Some AttributeError,
        \<lparr>audit = [], partner = 0,
         trace = [(0, Serialize ((example_record 7 ''course-v1:A+B+C'' True ''Pass'')\<lparr>attributes := []\<rparr>))],
         logs = [Exception_logged ''create_assessment_reporting failed with Exception'' 7]\<rparr>)"
  by (simp add: transmit_def transmit_record_def try_create_course_completion_def
      record_result_def save_def recorded_as_def state_with_sent_record_def
      example_channel_def example_record_def initial_state_def
      accepting_partner_def timeout_partner_def
      getattr_def is_already_transmitted_model_def Let_def str_examples)

text \<open>
  Claim C6, amended. \<open>transmit\<close> is a sequential pass over the export, in a fixed
  order. Every record is serialised first. A record of a completed course that
  \<open>is_already_transmitted\<close> does not report as sent and whose remote user id can be
  read is then posted with \<open>create_course_completion\<close>, with its serialised payload,
  and, when the client returns a response or raises \<open>ClientError\<close>, then saved: these
  three effects and no other, in this order, the partner in the state the call left
  and the saved record the one new row. A record of a course not completed, or
  reported as already sent, is serialised only. When the remote user id cannot be read
  the exception leaves the loop after the serialisation, and when the client raises
  another exception than \<open>ClientError\<close> it leaves the loop after the call; the record
  is saved in neither case. Over the run the effects are strictly ordered by the
  position of the record in the export and, for one record, by phase (serialise, post,
  save), so the records are processed one at a time in the order of the export with no
  interleaving; every effect belongs to the record at its position; the records
  serialised are a prefix of the export, the whole export when the run returns; the
  rows added are the records saved and the partner's state is the one the calls made
  leave, both in this order.
\<close>

theorem transmit_is_sequential:
  "(\<exists>new. trace (snd (transmit P exported s)) = trace s @ new
      \<and> sorted_wrt effect_before new
      \<and> (\<forall>e \<in> set new. fst e < length (serialized new)
             \<and> effect_of_record P (exported ! fst e) (snd e))
      \<and> serialized new = take (length (serialized new)) exported
      \<and> (fst (transmit P exported s) = None \<longrightarrow> serialized new = exported)
      \<and> audit (snd (transmit P exported s)) = audit s @ saved new
      \<and> partner (snd (transmit P exported s)) = completion_calls P new (partner s))
   \<and> (\<forall>ld i. \<exists>blk. trace (snd (snd (transmit_record P i ld s))) = trace s @ (i, Serialize ld) # blk
        \<and> serialized blk = [])
   \<and> (\<forall>ld i u code body w'.
        course_completed ld
        \<and> \<not> is_already_transmitted P (audit s) (enterprise_course_enrollment_id ld) (grade ld) None
        \<and> getattr ld (remote_user_id P) = Inr u
        \<and> create_course_completion P u (serialize P ld) (partner s) = (Inr (code, body), w')
        \<longrightarrow> (\<exists>ld' s'. transmit_record P i ld s = (None, ld', s')
              \<and> trace s' = trace s @ [(i, Serialize ld), (i, Post u (serialize P ld)), (i, Save ld')]
              \<and> partner s' = w' \<and> audit s' = audit s @ [ld']))
   \<and> (\<forall>ld i u message code w'.
        course_completed ld
        \<and> \<not> is_already_transmitted P (audit s) (enterprise_course_enrollment_id ld) (grade ld) None
        \<and> getattr ld (remote_user_id P) = Inr u
        \<and> create_course_completion P u (serialize P ld) (partner s)
             = (Inl (ClientError message code), w')
        \<longrightarrow> (\<exists>ld' s'. transmit_record P i ld s = (None, ld', s')
              \<and> trace s' = trace s @ [(i, Serialize ld), (i, Post u (serialize P ld)), (i, Save ld')]
              \<and> partner s' = w' \<and> audit s' = audit s @ [ld']))
   \<and> (\<forall>ld i.
        \<not> course_completed ld
        \<or> is_already_transmitted P (audit s) (enterprise_course_enrollment_id ld) (grade ld) None
        \<longrightarrow> (\<exists>s'. transmit_record P i ld s = (None, ld, s')
              \<and> trace s' = trace s @ [(i, Serialize ld)]
              \<and> partner s' = partner s \<and> audit s' = audit s))
   \<and> (\<forall>ld i exc.
        course_completed ld
        \<and> \<not> is_already_transmitted P (audit s) (enterprise_course_enrollment_id ld) (grade ld) None
        \<and> getattr ld (remote_user_id P) = Inl exc
        \<longrightarrow> (\<exists>s'. transmit_record P i ld s = (Some exc, ld, s')
              \<and> trace s' = trace s @ [(i, Serialize ld)]
              \<and> partner s' = partner s \<and> audit s' = audit s))
   \<and> (\<forall>ld i u exc w'.
        course_completed ld
        \<and> \<not> is_already_transmitted P (audit s) (enterprise_course_enrollment_id ld) (grade ld) None
        \<and> getattr ld (remote_user_id P) = Inr u
        \<and> create_course_completion P u (serialize P ld) (partner s) = (Inl exc, w')
        \<and> (\<forall>message code. exc \<noteq> ClientError message code)
        \<longrightarrow> (\<exists>s'. transmit_record P i ld s = (Some exc, ld, s')
              \<and> trace s' = trace s @ [(i, Serialize ld), (i, Post u (serialize P ld))]
              \<and> partner s' = w' \<and> audit s' = audit s))"
proof (intro conjI)
  show "\<exists>new. trace (snd (transmit P exported s)) = trace s @ new
      \<and> sorted_wrt effect_before new
      \<and> (\<forall>e \<in> set new. fst e < length (serialized new)
             \<and> effect_of_record P (exported ! fst e) (snd e))
      \<and> serialized new = take (length (serialized new)) exported
      \<and> (fst (transmit P exported s) = None \<longrightarrow> serialized new = exported)
      \<and> audit (snd (transmit P exported s)) = audit s @ saved new
      \<and> partner (snd (transmit P exported s)) = completion_calls P new (partner s)"
    by (rule transmit_run)
next
  show "\<forall>ld i. \<exists>blk. trace (snd (snd (transmit_record P i ld s))) = trace s @ (i, Serialize ld) # blk
        \<and> serialized blk = []"
  proof (intro allI)
    fix ld i
    obtain r ld' s' where step: "transmit_record P i ld s = (r, ld', s')"
      by (cases "transmit_record P i ld s") auto
    from transmit_record_block[OF step] obtain blk where
      "trace s' = trace s @ (i, Serialize ld) # blk" "serialized blk = []" by blast
    with step show "\<exists>blk. trace (snd (snd (transmit_record P i ld s)))
        = trace s @ (i, Serialize ld) # blk \<and> serialized blk = []"
      by (intro exI[of _ blk]) simp
  qed
next
  show "\<forall>ld i u code body w'.
        course_completed ld
        \<and> \<not> is_already_transmitted P (audit s) (enterprise_course_enrollment_id ld) (grade ld) None
        \<and> getattr ld (remote_user_id P) = Inr u
        \<and> create_course_completion P u (serialize P ld) (partner s) = (Inr (code, body), w')
        \<longrightarrow> (\<exists>ld' s'. transmit_record P i ld s = (None, ld', s')
              \<and> trace s' = trace s @ [(i, Serialize ld), (i, Post u (serialize P ld)), (i, Save ld')]
              \<and> partner s' = w' \<and> audit s' = audit s @ [ld'])"
  proof (intro allI impI)
    fix ld i u code body w'
    assume a: "course_completed ld
        \<and> \<not> is_already_transmitted P (audit s) (enterprise_course_enrollment_id ld) (grade ld) None
        \<and> getattr ld (remote_user_id P) = Inr u
        \<and> create_course_completion P u (serialize P ld) (partner s) = (Inr (code, body), w')"
    from a have a1: "course_completed ld" by (elim conjE)
    from a have a2: "\<not> is_already_transmitted P (audit s)
        (enterprise_course_enrollment_id ld) (grade ld) None" by (elim conjE)
    from a have a3: "getattr ld (remote_user_id P) = Inr u" by (elim conjE)
    from a have a4: "create_course_completion P u (serialize P ld) (partner s)
        = (Inr (code, body), w')" by (elim conjE)
    show "\<exists>ld' s'. transmit_record P i ld s = (None, ld', s')
              \<and> trace s' = trace s @ [(i, Serialize ld), (i, Post u (serialize P ld)), (i, Save ld')]
              \<and> partner s' = w' \<and> audit s' = audit s @ [ld']"
      using a1 a2 a3 a4 by (rule transmit_record_response)
  qed
next
  show "\<forall>ld i u message code w'.
        course_completed ld
        \<and> \<not> is_already_transmitted P (audit s) (enterprise_course_enrollment_id ld) (grade ld) None
        \<and> getattr ld (remote_user_id P) = Inr u
        \<and> create_course_completion P u (serialize P ld) (partner s)
             = (Inl (ClientError message code), w')
        \<longrightarrow> (\<exists>ld' s'. transmit_record P i ld s = (None, ld', s')
              \<and> trace s' = trace s @ [(i, Serialize ld), (i, Post u (serialize P ld)), (i, Save ld')]
              \<and> partner s' = w' \<and> audit s' = audit s @ [ld'])"
  proof (intro allI impI)
    fix ld i u message code w'
    assume a: "course_completed ld
        \<and> \<not> is_already_transmitted P (audit s) (enterprise_course_enrollment_id ld) (grade ld) None
        \<and> getattr ld (remote_user_id P) = Inr u
        \<and> create_course_completion P u (serialize P ld) (partner s)
             = (Inl (ClientError message code), w')"
    from a have a1: "course_completed ld" by (elim conjE)
    from a have a2: "\<not> is_already_transmitted P (audit s)
        (enterprise_course_enrollment_id ld) (grade ld) None" by (elim conjE)
    from a have a3: "getattr ld (remote_user_id P) = Inr u" by (elim conjE)
    from a have a4: "create_course_completion P u (serialize P ld) (partner s)
        = (Inl (ClientError message code), w')" by (elim conjE)
    show "\<exists>ld' s'. transmit_record P i ld s = (None, ld', s')
              \<and> trace s' = trace s @ [(i, Serialize ld), (i, Post u (serialize P ld)), (i, Save ld')]
              \<and> partner s' = w' \<and> audit s' = audit s @ [ld']"
      using a1 a2 a3 a4 by (rule transmit_record_client_error)
  qed
next
  show "\<forall>ld i.
        \<not> course_completed ld
        \<or> is_already_transmitted P (audit s) (enterprise_course_enrollment_id ld) (grade ld) None
        \<longrightarrow> (\<exists>s'. transmit_record P i ld s = (None, ld, s')
              \<and> trace s' = trace s @ [(i, Serialize ld)]
              \<and> partner s' = partner s \<and> audit s' = audit s)"
    by (intro allI impI) (rule transmit_record_skipped)
next
  show "\<forall>ld i exc.
        course_completed ld
        \<and> \<not> is_already_transmitted P (audit s) (enterprise_course_enrollment_id ld) (grade ld) None
        \<and> getattr ld (remote_user_id P) = Inl exc
        \<longrightarrow> (\<exists>s'. transmit_record P i ld s = (Some exc, ld, s')
              \<and> trace s' = trace s @ [(i, Serialize ld)]
              \<and> partner s' = partner s \<and> audit s' = audit s)"
  proof (intro allI impI)
    fix ld i exc
    assume a: "course_completed ld
        \<and> \<not> is_already_transmitted P (audit s) (enterprise_course_enrollment_id ld) (grade ld) None
        \<and> getattr ld (remote_user_id P) = Inl exc"
    from a have a1: "course_completed ld" by (elim conjE)
    from a have a2: "\<not> is_already_transmitted P (audit s)
        (enterprise_course_enrollment_id ld) (grade ld) None" by (elim conjE)
    from a have a3: "getattr ld (remote_user_id P) = Inl exc" by (elim conjE)
    show "\<exists>s'. transmit_record P i ld s = (Some exc, ld, s')
              \<and> trace s' = trace s @ [(i, Serialize ld)]
              \<and> partner s' = partner s \<and> audit s' = audit s"
      using a1 a2 a3 by (rule transmit_record_no_remote_user)
  qed
next
  show "\<forall>ld i u exc w'.
        course_completed ld
        \<and> \<not> is_already_transmitted P (audit s) (enterprise_course_enrollment_id ld) (grade ld) None
        \<and> getattr ld (remote_user_id P) = Inr u
        \<and> create_course_completion P u (serialize P ld) (partner s) = (Inl exc, w')
        \<and> (\<forall>message code. exc \<noteq> ClientError message code)
        \<longrightarrow> (\<exists>s'. transmit_record P i ld s = (Some exc, ld, s')
              \<and> trace s' = trace s @ [(i, Serialize ld), (i, Post u (serialize P ld))]
              \<and> partner s' = w' \<and> audit s' = audit s)"
  proof (intro allI impI)
    fix ld i u exc w'
    assume a: "course_completed ld
        \<and> \<not> is_already_transmitted P (audit s) (enterprise_course_enrollment_id ld) (grade ld) None
        \<and> getattr ld (remote_user_id P) = Inr u
        \<and> create_course_completion P u (serialize P ld) (partner s) = (Inl exc, w')
        \<and> (\<forall>message code. exc \<noteq> ClientError message code)"
    from a have a1: "course_completed ld" by (elim conjE)
    from a have a2: "\<not> is_already_transmitted P (audit s)
        (enterprise_course_enrollment_id ld) (grade ld) None" by (elim conjE)
    from a have a3: "getattr ld (remote_user_id P) = Inr u" by (elim conjE)
    from a have a4: "create_course_completion P u (serialize P ld) (partner s)
        = (Inl exc, w')" by (elim conjE)
    from a have a5: "\<forall>message code. exc \<noteq> ClientError message code" by (elim conjE)
    show "\<exists>s'. transmit_record P i ld s = (Some exc, ld, s')
              \<and> trace s' = trace s @ [(i, Serialize ld), (i, Post u (serialize P ld))]
              \<and> partner s' = w' \<and> audit s' = audit s"
      using a1 a2 a3 a4 a5 by (rule transmit_record_client_raised)
  qed
qed

theorem transmit_is_sequential_witness:
  "sorted_wrt effect_before
     (trace (snd (transmit (example_channel accepting_partner)
               [example_record 7 ''course-v1:A+B+C'' True ''Pass'',
                example_record 8 ''course-v1:D+E+F'' True ''Pass''] initial_state)))
   \<and> serialized
     (trace (snd (transmit (example_channel accepting_partner)
               [example_record 7 ''course-v1:A+B+C'' True ''Pass'',
                example_record 8 ''course-v1:D+E+F'' True ''Pass''] initial_state)))
      = [example_record 7 ''course-v1:A+B+C'' True ''Pass'',
         example_record 8 ''course-v1:D+E+F'' True ''Pass'']
   \<and> audit (snd (transmit (example_channel accepting_partner)
               [example_record 7 ''course-v1:A+B+C'' True ''Pass'',
                example_record 8 ''course-v1:D+E+F'' True ''Pass''] initial_state))
      = saved (trace (snd (transmit (example_channel accepting_partner)
               [example_record 7 ''course-v1:A+B+C'' True ''Pass'',
                example_record 8 ''course-v1:D+E+F'' True ''Pass''] initial_state)))
   \<and> partner (snd (transmit (example_channel accepting_partner)
               [example_record 7 ''course-v1:A+B+C'' True ''Pass'',
                example_record 8 ''course-v1:D+E+F'' True ''Pass''] initial_state))
      = completion_calls (example_channel accepting_partner)
          (trace (snd (transmit (example_channel accepting_partner)
               [example_record 7 ''course-v1:A+B+C'' True ''Pass'',
                example_record 8 ''course-v1:D+E+F'' True ''Pass''] initial_state))) 0
   \<and> transmit (example_channel accepting_partner)
               [example_record 7 ''course-v1:A+B+C'' True ''Pass'',
                example_record 8 ''course-v1:D+E+F'' True ''Pass''] initial_state
      = (None,
       \<lparr>audit = [recorded_as (example_record 7 ''course-v1:A+B+C'' True ''Pass'') 200 ''{}'',
                 recorded_as (example_record 8 ''course-v1:D+E+F'' True ''Pass'') 200 ''{}''],
        partner = 2,
        trace = [(0, Serialize (example_record 7 ''course-v1:A+B+C'' True ''Pass'')),
         (0, Post ''learner-1'' ''course-v1:A+B+C''),
         (0, Save (recorded_as (example_record 7 ''course-v1:A+B+C'' True ''Pass'') 200 ''{}'')),
         (1, Serialize (example_record 8 ''course-v1:D+E+F'' True ''Pass'')),
         (1, Post ''learner-1'' ''course-v1:D+E+F''),
         (1, Save (recorded_as (example_record 8 ''course-v1:D+E+F'' True ''Pass'') 200 ''{}''))],
        logs = [Info ''Successfully sent completion status call'' 7,
                Info ''Successfully sent completion status call'' 8]\<rparr>)
   \<and> course_completed (example_record 7 ''course-v1:A+B+C'' True ''Pass'')
   \<and> \<not> is_already_transmitted (example_channel accepting_partner) (audit initial_state)
          (enterprise_course_enrollment_id (example_record 7 ''course-v1:A+B+C'' True ''Pass''))
          (grade (example_record 7 ''course-v1:A+B+C'' True ''Pass'')) None
   \<and> getattr (example_record 7 ''course-v1:A+B+C'' True ''Pass'')
        (remote_user_id (example_channel accepting_partner)) = Inr ''learner-1''
   \<and> create_course_completion (example_channel accepting_partner) ''learner-1''
        (serialize (example_channel accepting_partner)
           (example_record 7 ''course-v1:A+B+C'' True ''Pass'')) (partner initial_state)
       = (Inr (200, ''{}''), Suc 0)
   \<and> (\<exists>ld' s'. transmit_record (example_channel accepting_partner) 0
                 (example_record 7 ''course-v1:A+B+C'' True ''Pass'') initial_state
               = (None, ld', s')
         \<and> trace s' = trace initial_state
              @ [(0, Serialize (example_record 7 ''course-v1:A+B+C'' True ''Pass'')),
                 (0, Post ''learner-1''
                       (serialize (example_channel accepting_partner)
                          (example_record 7 ''course-v1:A+B+C'' True ''Pass''))),
                 (0, Save ld')]
         \<and> partner s' = Suc 0 \<and> audit s' = audit initial_state @ [ld'])"
proof -
  let ?P = "example_channel accepting_partner"
  let ?r = "example_record 7 ''course-v1:A+B+C'' True ''Pass''"
  let ?ex = "[example_record 7 ''course-v1:A+B+C'' True ''Pass'',
              example_record 8 ''course-v1:D+E+F'' True ''Pass'']"
  have run: "transmit ?P ?ex initial_state =
      (None,
       \<lparr>audit = [recorded_as (example_record 7 ''course-v1:A+B+C'' True ''Pass'') 200 ''{}'',
                 recorded_as (example_record 8 ''course-v1:D+E+F'' True ''Pass'') 200 ''{}''],
        partner = 2,
        trace = [(0, Serialize (example_record 7 ''course-v1:A+B+C'' True ''Pass'')),
         (0, Post ''learner-1'' ''course-v1:A+B+C''),
         (0, Save (recorded_as (example_record 7 ''course-v1:A+B+C'' True ''Pass'') 200 ''{}'')),
         (1, Serialize (example_record 8 ''course-v1:D+E+F'' True ''Pass'')),
         (1, Post ''learner-1'' ''course-v1:D+E+F''),
         (1, Save (recorded_as (example_record 8 ''course-v1:D+E+F'' True ''Pass'') 200 ''{}''))],
        logs = [Info ''Successfully sent completion status call'' 7,
                Info ''Successfully sent completion status call'' 8]\<rparr>)"
    by (simp add: transmit_def transmit_record_def try_create_course_completion_def
        record_result_def save_def recorded_as_def
        example_channel_def example_record_def initial_state_def accepting_partner_def
        getattr_def is_already_transmitted_model_def Let_def)
  note whole = transmit_is_sequential[of ?P ?ex initial_state]
  from whole[THEN conjunct1]
  obtain new where n: "trace (snd (transmit ?P ?ex initial_state)) = trace initial_state @ new
      \<and> sorted_wrt effect_before new
      \<and> (\<forall>e \<in> set new. fst e < length (serialized new)
             \<and> effect_of_record ?P (?ex ! fst e) (snd e))
      \<and> serialized new = take (length (serialized new)) ?ex
      \<and> (fst (transmit ?P ?ex initial_state) = None \<longrightarrow> serialized new = ?ex)
      \<and> audit (snd (transmit ?P ?ex initial_state)) = audit initial_state @ saved new
      \<and> partner (snd (transmit ?P ?ex initial_state))
          = completion_calls ?P new (partner initial_state)"
    by (rule exE)
  have fin: "fst (transmit ?P ?ex initial_state) = None" by (simp only: run fst_conv)
  from n have "trace (snd (transmit ?P ?ex initial_state)) = trace initial_state @ new"
    by (rule conjunct1)
  then have e: "trace (snd (transmit ?P ?ex initial_state)) = new"
    by (simp only: initial_state_def channel_state.simps append_Nil)
  from n have n2: "sorted_wrt effect_before new"
    by (elim conjE)
  from n have "fst (transmit ?P ?ex initial_state) = None \<longrightarrow> serialized new = ?ex"
    by (elim conjE)
  then have n3: "serialized new = ?ex" using fin by (rule mp)
  from n have "audit (snd (transmit ?P ?ex initial_state)) = audit initial_state @ saved new"
    by (elim conjE)
  then have n4: "audit (snd (transmit ?P ?ex initial_state)) = saved new"
    by (simp only: initial_state_def channel_state.simps append_Nil)
  from n have "partner (snd (transmit ?P ?ex initial_state))
          = completion_calls ?P new (partner initial_state)"
    by (elim conjE)
  then have n5: "partner (snd (transmit ?P ?ex initial_state)) = completion_calls ?P new 0"
    by (simp only: initial_state_def channel_state.simps)
  from n2 have a: "sorted_wrt effect_before (trace (snd (transmit ?P ?ex initial_state)))"
    by (simp only: e)
  from n3 have b: "serialized (trace (snd (transmit ?P ?ex initial_state))) = ?ex"
    by (simp only: e)
  from n4 have c: "audit (snd (transmit ?P ?ex initial_state))
      = saved (trace (snd (transmit ?P ?ex initial_state)))"
    by (simp only: e)
  from n5 have d: "partner (snd (transmit ?P ?ex initial_state))
      = completion_calls ?P (trace (snd (transmit ?P ?ex initial_state))) 0"
    by (simp only: e)
  have h1: "course_completed ?r" by (simp add: example_record_def)
  have h2: "\<not> is_already_transmitted ?P (audit initial_state)
          (enterprise_course_enrollment_id ?r) (grade ?r) None"
    by (simp add: example_channel_def initial_state_def is_already_transmitted_model_def)
  have h3: "getattr ?r (remote_user_id ?P) = Inr ''learner-1''"
    by (simp add: getattr_def example_channel_def example_record_def)
  have h4: "create_course_completion ?P ''learner-1'' (serialize ?P ?r) (partner initial_state)
       = (Inr (200, ''{}''), Suc 0)"
    by (simp add: example_channel_def accepting_partner_def initial_state_def)
  from h1 h2 h3 h4 have pre: "course_completed ?r
        \<and> \<not> is_already_transmitted ?P (audit initial_state)
            (enterprise_course_enrollment_id ?r) (grade ?r) None
        \<and> getattr ?r (remote_user_id ?P) = Inr ''learner-1''
        \<and> create_course_completion ?P ''learner-1'' (serialize ?P ?r) (partner initial_state)
            = (Inr (200, ''{}''), Suc 0)"
    by (intro conjI)
  from whole[THEN conjunct2, THEN conjunct2, THEN conjunct1, rule_format, OF pre, of 0]
  have one: "\<exists>ld' s'. transmit_record ?P 0 ?r initial_state = (None, ld', s')
         \<and> trace s' = trace initial_state
              @ [(0, Serialize ?r), (0, Post ''learner-1'' (serialize ?P ?r)), (0, Save ld')]
         \<and> partner s' = Suc 0 \<and> audit s' = audit initial_state @ [ld']" .
  from a b c d run h1 h2 h3 h4 one show ?thesis by (intro conjI)
qed


section \<open>A second run of \<open>transmit\<close>\<close>





section \<open>The two results of \<open>refresh_catalogs\<close>\<close>















end
